theory Spec2Isabelle
  imports Complex_Main "HOL-Library.Sublist" "HOL-Library.Char_ord" "HOL-Library.List_Lexorder"
begin

section \<open>Transport delay predictor: the cleaning and feature pipeline\<close>

text \<open>
  A shallow embedding of \<^verbatim>\<open>ml_pipeline/src/data_cleaning.py\<close> (class \<^verbatim>\<open>DataCleaner\<close>) and of
  \<^verbatim>\<open>ml_pipeline/src/feature_engineering.py\<close> (class \<^verbatim>\<open>FeatureEngineer\<close>).

  Conventions of the model.
  \<^item> A pandas table is a list of rows, in index order; every one of the seven input columns
    \<^verbatim>\<open>route_id, scheduled_time, actual_time, weather, passenger_count, latitude, longitude\<close>
    is present, so each \<^verbatim>\<open>if col in self.df.columns\<close> guard takes its true branch.
  \<^item> A missing cell (\<^verbatim>\<open>NaN\<close>, \<^verbatim>\<open>None\<close>, \<^verbatim>\<open>NaT\<close>, \<^verbatim>\<open>pd.NA\<close>) is \<open>None\<close>.
  \<^item> Numeric cells are real numbers: rounding of binary floating point and the infinite
    values are outside the model.
  \<^item> Text is a list of characters with code points below 256; \<^verbatim>\<open>str.lower\<close>, \<^verbatim>\<open>str.isdigit\<close>
    and the regular expression class \<^verbatim>\<open>\d\<close> are modelled on ASCII.
  \<^item> The audit log \<^verbatim>\<open>cleaning_log\<close> and the calls of \<^verbatim>\<open>logger\<close> influence no computed value and
    are left out.
\<close>

subsection \<open>Strings\<close>

definition is_space :: "char \<Rightarrow> bool" where
  \<comment> \<open>the characters below 256 for which \<^verbatim>\<open>str.isspace\<close> holds\<close>
  "is_space c = (c \<in> set [CHR 0x09, CHR 0x0A, CHR 0x0B, CHR 0x0C, CHR 0x0D,
                           CHR 0x1C, CHR 0x1D, CHR 0x1E, CHR 0x1F, CHR '' '',
                           CHR 0x85, CHR 0xA0])"

definition strip :: "string \<Rightarrow> string" where
  \<comment> \<open>\<^verbatim>\<open>s.strip()\<close>\<close>
  "strip s = rev (dropWhile is_space (rev (dropWhile is_space s)))"

definition lower_char :: "char \<Rightarrow> char" where
  "lower_char c =
     (case map_of (zip ''ABCDEFGHIJKLMNOPQRSTUVWXYZ'' ''abcdefghijklmnopqrstuvwxyz'') c of
        Some l \<Rightarrow> l
      | None \<Rightarrow> c)"

definition str_lower :: "string \<Rightarrow> string" where
  \<comment> \<open>\<^verbatim>\<open>s.lower()\<close>\<close>
  "str_lower s = map lower_char s"

fun py_in :: "string \<Rightarrow> string \<Rightarrow> bool" where
  \<comment> \<open>\<^verbatim>\<open>sub in s\<close> on strings: \<open>sub\<close> occurs in \<open>s\<close> as a contiguous block\<close>
  "py_in sub [] = (sub = [])"
| "py_in sub (c # cs) = (prefix sub (c # cs) \<or> py_in sub cs)"

definition digit_val :: "char \<Rightarrow> nat option" where
  "digit_val c = map_of (zip ''0123456789'' [0, 1, 2, 3, 4, 5, 6, 7, 8, 9]) c"

definition is_digit :: "char \<Rightarrow> bool" where
  "is_digit c = (digit_val c \<noteq> None)"

definition isdigit :: "string \<Rightarrow> bool" where
  \<comment> \<open>\<^verbatim>\<open>s.isdigit()\<close>: at least one character and all of them digits\<close>
  "isdigit s = (s \<noteq> [] \<and> list_all is_digit s)"

definition int_of_digits :: "string \<Rightarrow> int" where
  \<comment> \<open>\<^verbatim>\<open>int(s)\<close> on a run of decimal digits\<close>
  "int_of_digits s = foldl (\<lambda>a c. 10 * a + int (case digit_val c of Some d \<Rightarrow> d | None \<Rightarrow> 0)) 0 s"

fun digit_runs :: "string \<Rightarrow> string \<Rightarrow> string list" where
  \<comment> \<open>the scanner behind \<^verbatim>\<open>re.findall(r'\d+', s)\<close>: \<open>cur\<close> is the run of digits being read\<close>
  "digit_runs cur [] = (if cur = [] then [] else [cur])"
| "digit_runs cur (c # cs) =
     (if is_digit c then digit_runs (cur @ [c]) cs
      else (if cur = [] then [] else [cur]) @ digit_runs [] cs)"

definition findall_digits :: "string \<Rightarrow> string list" where
  \<comment> \<open>\<^verbatim>\<open>re.findall(r'\d+', s)\<close>: the maximal runs of digits, left to right\<close>
  "findall_digits s = digit_runs [] s"

fun digits_of_nat :: "nat \<Rightarrow> nat \<Rightarrow> string" where
  \<comment> \<open>the decimal digits of a number, with fuel bounding the number of digits\<close>
  "digits_of_nat 0 n = []"
| "digits_of_nat (Suc fuel) n =
     (if n < 10 then [''0123456789'' ! n]
      else digits_of_nat fuel (n div 10) @ [''0123456789'' ! (n mod 10)])"

definition str_of_int :: "int \<Rightarrow> string" where
  \<comment> \<open>\<^verbatim>\<open>str(n)\<close> for an integer\<close>
  "str_of_int n =
     (if n < 0 then CHR ''-'' # digits_of_nat (Suc (nat (- n))) (nat (- n))
      else digits_of_nat (Suc (nat n)) (nat n))"

subsection \<open>Category normalizer: \<^verbatim>\<open>DataCleaner.normalize_weather\<close>\<close>

definition weather_mapping :: "(string \<times> string list) list" where
  \<comment> \<open>the dict literal, in insertion order, which is the order \<^verbatim>\<open>.items()\<close> iterates in\<close>
  "weather_mapping =
     [(''clear'', [''clear'', ''sunny'', ''sun'', ''fair'']),
      (''cloudy'', [''cloudy'', ''clouds'', ''overcast'', ''cloud'']),
      (''rainy'', [''rainy'', ''rain'', ''raining'', ''drizzle'', ''drizzling'']),
      (''snowy'', [''snowy'', ''snow'', ''snowing'', ''sleet''])]"

fun match_weather :: "(string \<times> string list) list \<Rightarrow> string \<Rightarrow> string" where
  \<comment> \<open>the \<^verbatim>\<open>for standard, variants in weather_mapping.items()\<close> loop and the default after it\<close>
  "match_weather [] value_lower = ''clear''"
| "match_weather ((standard, variants) # rest) value_lower =
     (if value_lower \<in> set variants \<or> (\<exists>v \<in> set variants. py_in v value_lower)
      then standard
      else match_weather rest value_lower)"

definition normalize_weather_value :: "string option \<Rightarrow> string" where
  "normalize_weather_value value =
     (case value of
        None \<Rightarrow> ''clear''
      | Some s \<Rightarrow> match_weather weather_mapping (strip (str_lower s)))"

text \<open>The specification's wording of the same function, over an enumeration of the categories.\<close>

datatype category = Clear | Cloudy | Rainy | Snowy

fun category_name :: "category \<Rightarrow> string" where
  "category_name Clear = ''clear''"
| "category_name Cloudy = ''cloudy''"
| "category_name Rainy = ''rainy''"
| "category_name Snowy = ''snowy''"

fun synonyms :: "category \<Rightarrow> string set" where
  "synonyms Clear = {''clear'', ''sunny'', ''sun'', ''fair''}"
| "synonyms Cloudy = {''cloudy'', ''clouds'', ''overcast'', ''cloud''}"
| "synonyms Rainy = {''rainy'', ''rain'', ''raining'', ''drizzle'', ''drizzling''}"
| "synonyms Snowy = {''snowy'', ''snow'', ''snowing'', ''sleet''}"

definition category_matches :: "category \<Rightarrow> string \<Rightarrow> bool" where
  \<comment> \<open>exact membership in the synonym set, or some synonym contained in the value\<close>
  "category_matches c t = (t \<in> synonyms c \<or> (\<exists>syn \<in> synonyms c. sublist syn t))"

definition spec_normalize_weather :: "string option \<Rightarrow> string" where
  "spec_normalize_weather value =
     (case value of
        None \<Rightarrow> ''clear''
      | Some s \<Rightarrow>
          (case find (\<lambda>c. category_matches c (strip (str_lower s))) [Clear, Cloudy, Rainy, Snowy] of
             Some c \<Rightarrow> category_name c
           | None \<Rightarrow> ''clear''))"

subsection \<open>Identifier unifier: \<^verbatim>\<open>DataCleaner.unify_route_identifiers\<close>\<close>

datatype route_val = RNone | RInt int | RStr string

fun str_of_route :: "route_val \<Rightarrow> string" where
  \<comment> \<open>\<^verbatim>\<open>str(value)\<close>; a cell of any other type is represented by its text\<close>
  "str_of_route (RInt n) = str_of_int n"
| "str_of_route (RStr s) = s"
| "str_of_route RNone = ''nan''"

definition extract_route_number :: "route_val \<Rightarrow> int" where
  "extract_route_number value =
     (if value = RNone then 1
      else
        let value_str = str_of_route value;
            numbers = findall_digits value_str
        in if numbers \<noteq> [] then
             (let route_num = int_of_digits (hd numbers) in min (max route_num 1) 10)
           else
             (let value_lower = str_lower value_str
              in if py_in ''one'' value_lower \<or> py_in ''1'' value_lower then 1
                 else if py_in ''two'' value_lower \<or> py_in ''2'' value_lower then 2
                 else 1))"

subsection \<open>Timestamp normalizer: \<^verbatim>\<open>DataCleaner._parse_timestamp\<close>\<close>

text \<open>
  The date and time functions the code calls belong to pandas and to the Python standard
  library, not to the repository. They are the parameter \<open>lib\<close> of the model, over any type
  \<open>'dt\<close> of date-time values (\<^verbatim>\<open>pd.Timestamp\<close>, a subclass of \<^verbatim>\<open>datetime\<close>, including \<^verbatim>\<open>NaT\<close>). A
  call that raises returns \<open>Inl\<close> of the exception.
\<close>

datatype exn = ValueError | OverflowError | OSError | OtherError

record 'dt datelib =
  to_datetime :: "string \<Rightarrow> exn + 'dt"          \<comment> \<open>\<^verbatim>\<open>pd.to_datetime(s)\<close>\<close>
  py_float :: "string \<Rightarrow> exn + real"             \<comment> \<open>\<^verbatim>\<open>float(s)\<close>\<close>
  to_datetime_unit_s :: "real \<Rightarrow> exn + 'dt"     \<comment> \<open>\<^verbatim>\<open>pd.to_datetime(x, unit='s')\<close>\<close>
  strptime :: "string \<Rightarrow> string \<Rightarrow> exn + 'dt"  \<comment> \<open>\<^verbatim>\<open>datetime.strptime(s, fmt)\<close>\<close>
  strftime :: "'dt \<Rightarrow> exn + string"              \<comment> \<open>\<^verbatim>\<open>dt.strftime('%Y-%m-%d %H:%M:%S')\<close>\<close>
  is_nat :: "'dt \<Rightarrow> bool"                         \<comment> \<open>\<^verbatim>\<open>pd.isna(dt)\<close>: the value is \<^verbatim>\<open>NaT\<close>\<close>
  timestamp :: "'dt \<Rightarrow> exn + real"               \<comment> \<open>\<^verbatim>\<open>dt.timestamp()\<close>, seconds since the epoch\<close>
  dt_hour :: "'dt \<Rightarrow> nat"                        \<comment> \<open>\<^verbatim>\<open>dt.hour\<close>\<close>
  dt_dayofweek :: "'dt \<Rightarrow> nat"                   \<comment> \<open>\<^verbatim>\<open>dt.dayofweek\<close>, Monday is 0\<close>

definition bind_exn :: "exn + 'a \<Rightarrow> ('a \<Rightarrow> exn + 'b) \<Rightarrow> exn + 'b" where
  \<comment> \<open>two statements in sequence: an exception of the first skips the second\<close>
  "bind_exn m f = (case m of Inl e \<Rightarrow> Inl e | Inr x \<Rightarrow> f x)"

definition except_pass :: "exn + 'a \<Rightarrow> 'a option" where
  \<comment> \<open>\<^verbatim>\<open>try: return body  except: pass\<close>: the bare \<^verbatim>\<open>except\<close> absorbs every exception\<close>
  "except_pass m = (case m of Inl e \<Rightarrow> None | Inr x \<Rightarrow> Some x)"

definition replace_char :: "char \<Rightarrow> string \<Rightarrow> string" where
  \<comment> \<open>\<^verbatim>\<open>s.replace(c, '')\<close> for a single character\<close>
  "replace_char c s = filter (\<lambda>x. x \<noteq> c) s"

definition formats :: "string list" where
  "formats =
     [''%Y-%m-%d %H:%M:%S'', ''%Y/%m/%d %H:%M:%S'', ''%d-%m-%Y %H:%M:%S'',
      ''%d/%m/%Y %H:%M:%S'', ''%Y-%m-%d'', ''%Y/%m/%d'']"

definition is_date_sep :: "char \<Rightarrow> bool" where
  \<comment> \<open>the class \<^verbatim>\<open>[-/]\<close>\<close>
  "is_date_sep c = (c = CHR ''-'' \<or> c = CHR ''/'')"

fun take_digits12 :: "string \<Rightarrow> (string \<times> string) option" where
  \<comment> \<open>the greedy \<^verbatim>\<open>\d{1,2}\<close>: the digits taken and the rest of the text\<close>
  "take_digits12 [] = None"
| "take_digits12 [a] = (if is_digit a then Some ([a], []) else None)"
| "take_digits12 (a # b # rest) =
     (if is_digit a then (if is_digit b then Some ([a, b], rest) else Some ([a], b # rest))
      else None)"

fun match_date_at :: "string \<Rightarrow> string option" where
  \<comment> \<open>\<^verbatim>\<open>(\d{4}[-/]\d{1,2}[-/]\d{1,2})\<close> matched at the start of the text. Giving a digit of the
      month back never helps, since a separator must follow it.\<close>
  "match_date_at (y1 # y2 # y3 # y4 # p # rest) =
     (if is_digit y1 \<and> is_digit y2 \<and> is_digit y3 \<and> is_digit y4 \<and> is_date_sep p then
        (case take_digits12 rest of
           Some (m, q # rest') \<Rightarrow>
             (if is_date_sep q then
                (case take_digits12 rest' of
                   Some (d, _) \<Rightarrow> Some ([y1, y2, y3, y4, p] @ m @ [q] @ d)
                 | None \<Rightarrow> None)
              else None)
         | _ \<Rightarrow> None)
      else None)"
| "match_date_at _ = None"

fun re_search_date :: "string \<Rightarrow> string option" where
  \<comment> \<open>\<^verbatim>\<open>re.search(date_pattern, s)\<close> and \<^verbatim>\<open>match.group(1)\<close>: the leftmost match\<close>
  "re_search_date [] = None"
| "re_search_date (c # cs) =
     (case match_date_at (c # cs) of
        Some m \<Rightarrow> Some m
      | None \<Rightarrow> re_search_date cs)"

definition try_generic :: "'dt datelib \<Rightarrow> string \<Rightarrow> string option" where
  \<comment> \<open>first \<^verbatim>\<open>try\<close> block\<close>
  "try_generic lib value_str =
     except_pass (bind_exn (to_datetime lib value_str) (strftime lib))"

definition try_unix :: "'dt datelib \<Rightarrow> string \<Rightarrow> string option" where
  \<comment> \<open>second \<^verbatim>\<open>try\<close> block; a false condition leaves the block without returning\<close>
  "try_unix lib value_str =
     (if isdigit (replace_char CHR ''-'' (replace_char CHR ''.'' value_str)) then
        except_pass
          (bind_exn (py_float lib value_str)
             (\<lambda>x. bind_exn (to_datetime_unit_s lib x) (strftime lib)))
      else None)"

fun try_formats :: "'dt datelib \<Rightarrow> string \<Rightarrow> string list \<Rightarrow> string option" where
  \<comment> \<open>the \<^verbatim>\<open>for fmt in formats\<close> loop: an exception continues with the next format\<close>
  "try_formats lib value_str [] = None"
| "try_formats lib value_str (fmt # fmts) =
     (case except_pass (bind_exn (strptime lib value_str fmt) (strftime lib)) of
        Some s \<Rightarrow> Some s
      | None \<Rightarrow> try_formats lib value_str fmts)"

definition try_regex :: "'dt datelib \<Rightarrow> string \<Rightarrow> string option" where
  \<comment> \<open>the regular expression and the last \<^verbatim>\<open>try\<close> block\<close>
  "try_regex lib value_str =
     (case re_search_date value_str of
        None \<Rightarrow> None
      | Some m \<Rightarrow> except_pass (bind_exn (to_datetime lib m) (strftime lib)))"

definition parse_timestamp :: "'dt datelib \<Rightarrow> string option \<Rightarrow> exn + string option" where
  \<comment> \<open>\<^verbatim>\<open>_parse_timestamp\<close>; \<open>Inr None\<close> is the returned \<^verbatim>\<open>None\<close>, \<open>Inl e\<close> an exception leaving the
      function\<close>
  "parse_timestamp lib value =
     (case value of
        None \<Rightarrow> Inr None
      | Some v \<Rightarrow>
          let value_str = strip v in
          (case try_generic lib value_str of
             Some s \<Rightarrow> Inr (Some s)
           | None \<Rightarrow>
          (case try_unix lib value_str of
             Some s \<Rightarrow> Inr (Some s)
           | None \<Rightarrow>
          (case try_formats lib value_str formats of
             Some s \<Rightarrow> Inr (Some s)
           | None \<Rightarrow>
          (case try_regex lib value_str of
             Some s \<Rightarrow> Inr (Some s)
           | None \<Rightarrow> Inr None)))))"

text \<open>
  The specification's wording: four attempts in a fixed order, each giving a date-time value
  or failing; the first success is rendered in the canonical format.
\<close>

definition attempts :: "'dt datelib \<Rightarrow> string \<Rightarrow> string option list" where
  "attempts lib s =
     [try_generic lib s, try_unix lib s, try_formats lib s formats, try_regex lib s]"

definition first_success :: "'a option list \<Rightarrow> 'a option" where
  "first_success xs = (case filter (\<lambda>x. x \<noteq> None) xs of [] \<Rightarrow> None | x # _ \<Rightarrow> x)"

definition spec_parse_timestamp :: "'dt datelib \<Rightarrow> string option \<Rightarrow> string option" where
  "spec_parse_timestamp lib value =
     (case value of None \<Rightarrow> None | Some v \<Rightarrow> first_success (attempts lib (strip v)))"

definition canonical_of :: "'dt datelib \<Rightarrow> string \<Rightarrow> bool" where
  \<comment> \<open>the text is what \<^verbatim>\<open>strftime('%Y-%m-%d %H:%M:%S')\<close> returns for some date-time value\<close>
  "canonical_of lib s = (\<exists>dt. strftime lib dt = Inr s)"

subsection \<open>A model of the date library\<close>

text \<open>
  An instance of the library parameter, used where a statement needs concrete dates: the
  scenarios of the specification, the examples and the counterexamples. Dates are on the
  proleptic Gregorian calendar and times are UTC, as for a \<^verbatim>\<open>pd.Timestamp\<close> without a time zone.
  \<^item> \<^verbatim>\<open>strftime('%Y-%m-%d %H:%M:%S')\<close> pads month, day, hour, minute and second to two digits and
    writes the year as the C library does, without padding: the year 999 gives three digits.
  \<^item> \<^verbatim>\<open>datetime.strptime\<close> reads the six formats of the code: \<^verbatim>\<open>%Y\<close> is four digits, the other
    fields one or two digits within their range, a blank of the format matches one or more
    blanks, and the whole text must be used. A day padded with a blank is not modelled.
  \<^item> \<^verbatim>\<open>float\<close> reads a decimal numeral with an optional minus sign, the only texts that pass the
    guard of the second attempt.
  \<^item> \<^verbatim>\<open>pd.to_datetime(x, unit='s')\<close> and \<^verbatim>\<open>pd.to_datetime(s)\<close> raise outside the range of a
    nanosecond timestamp (1677-09-21 to 2262-04-11); a fraction of a second is dropped.
  \<^item> \<^verbatim>\<open>pd.to_datetime(s)\<close> reads \<^verbatim>\<open>YYYY-MM-DD HH:MM:SS\<close> and a bare date with \<^verbatim>\<open>-\<close> or \<^verbatim>\<open>/\<close>; pandas
    reads many more texts, on which this model raises, and the texts for which pandas
    returns \<^verbatim>\<open>NaT\<close> raise as well (the code treats both alike).
\<close>

record civil =
  year :: nat
  month :: nat
  day :: nat
  hh :: nat
  mi :: nat
  ss :: nat

definition digit_char :: "nat \<Rightarrow> char" where
  "digit_char n = ''0123456789'' ! (n mod 10)"

definition pad2 :: "nat \<Rightarrow> string" where
  "pad2 n = [digit_char (n div 10), digit_char n]"

definition str_of_nat :: "nat \<Rightarrow> string" where
  \<comment> \<open>the decimal digits, without padding\<close>
  "str_of_nat n = digits_of_nat (Suc n) n"

definition nat_of_digits :: "string \<Rightarrow> nat" where
  "nat_of_digits s = nat (int_of_digits s)"

definition is_leap :: "nat \<Rightarrow> bool" where
  "is_leap y = (y mod 4 = 0 \<and> (y mod 100 \<noteq> 0 \<or> y mod 400 = 0))"

definition days_in_month :: "nat \<Rightarrow> nat \<Rightarrow> nat" where
  "days_in_month y m =
     (if m = 2 then (if is_leap y then 29 else 28)
      else if m \<in> {4, 6, 9, 11} then 30 else 31)"

definition valid_civil :: "civil \<Rightarrow> bool" where
  "valid_civil dt =
     (1 \<le> year dt \<and> year dt \<le> 9999 \<and> 1 \<le> month dt \<and> month dt \<le> 12 \<and> 1 \<le> day dt
      \<and> day dt \<le> days_in_month (year dt) (month dt)
      \<and> hh dt < 24 \<and> mi dt < 60 \<and> ss dt < 60)"

definition checked :: "civil \<Rightarrow> exn + civil" where
  "checked dt = (if valid_civil dt then Inr dt else Inl ValueError)"

definition days_from_civil :: "nat \<Rightarrow> nat \<Rightarrow> nat \<Rightarrow> int" where
  \<comment> \<open>days from 1970-01-01 to the given date\<close>
  "days_from_civil y m d =
     (let y' = (if m \<le> 2 then int y - 1 else int y);
          era = y' div 400;
          yoe = y' - era * 400;
          doy = (153 * (if m > 2 then int m - 3 else int m + 9) + 2) div 5 + int d - 1;
          doe = yoe * 365 + yoe div 4 - yoe div 100 + doy
      in era * 146097 + doe - 719468)"

definition civil_of_seconds :: "int \<Rightarrow> civil" where
  \<comment> \<open>the date and time of an instant given in seconds from 1970-01-01 00:00:00\<close>
  "civil_of_seconds t =
     (let z = t div 86400 + 719468;
          sod = t mod 86400;
          era = z div 146097;
          doe = z - era * 146097;
          yoe = (doe - doe div 1460 + doe div 36524 - doe div 146096) div 365;
          doy = doe - (365 * yoe + yoe div 4 - yoe div 100);
          mp = (5 * doy + 2) div 153;
          m = (if mp < 10 then mp + 3 else mp - 9);
          y = yoe + era * 400 + (if m \<le> 2 then 1 else 0)
      in \<lparr>year = nat y, month = nat m, day = nat (doy - (153 * mp + 2) div 5 + 1),
          hh = nat (sod div 3600), mi = nat (sod mod 3600 div 60), ss = nat (sod mod 60)\<rparr>)"

definition canon_timestamp :: "civil \<Rightarrow> real" where
  "canon_timestamp dt =
     real_of_int (days_from_civil (year dt) (month dt) (day dt) * 86400
                  + int (hh dt) * 3600 + int (mi dt) * 60 + int (ss dt))"

definition in_bounds :: "real \<Rightarrow> bool" where
  \<comment> \<open>the instant, in seconds, fits a signed 64-bit count of nanoseconds\<close>
  "in_bounds t = (- 9223372036854775807 \<le> t * 1000000000 \<and> t * 1000000000 \<le> 9223372036854775807)"

definition bounded :: "civil \<Rightarrow> exn + civil" where
  \<comment> \<open>\<^verbatim>\<open>OutOfBoundsDatetime\<close> is a \<^verbatim>\<open>ValueError\<close>\<close>
  "bounded dt = (if in_bounds (canon_timestamp dt) then Inr dt else Inl ValueError)"

definition parse_date :: "string \<Rightarrow> exn + civil" where
  \<comment> \<open>\<^verbatim>\<open>YYYY-MM-DD\<close> or \<^verbatim>\<open>YYYY/MM/DD\<close>, month and day of one or two digits\<close>
  "parse_date s =
     (if match_date_at s = Some s then
        (case take_digits12 (drop 5 s) of
           Some (m, rest) \<Rightarrow>
             (case take_digits12 (drop 1 rest) of
                Some (d, _) \<Rightarrow>
                  checked \<lparr>year = nat_of_digits (take 4 s), month = nat_of_digits m,
                           day = nat_of_digits d, hh = 0, mi = 0, ss = 0\<rparr>
              | None \<Rightarrow> Inl ValueError)
         | None \<Rightarrow> Inl ValueError)
      else Inl ValueError)"

definition canonical_text :: "string \<Rightarrow> bool" where
  \<comment> \<open>the text has the shape \<^verbatim>\<open>YYYY-MM-DD HH:MM:SS\<close>\<close>
  "canonical_text s =
     (length s = 19 \<and> isdigit (take 4 s) \<and> s ! 4 = CHR ''-'' \<and> isdigit (take 2 (drop 5 s))
      \<and> s ! 7 = CHR ''-'' \<and> isdigit (take 2 (drop 8 s)) \<and> s ! 10 = CHR '' ''
      \<and> isdigit (take 2 (drop 11 s)) \<and> s ! 13 = CHR '':'' \<and> isdigit (take 2 (drop 14 s))
      \<and> s ! 16 = CHR '':'' \<and> isdigit (take 2 (drop 17 s)))"

definition parse_canonical :: "string \<Rightarrow> exn + civil" where
  \<comment> \<open>exactly \<^verbatim>\<open>YYYY-MM-DD HH:MM:SS\<close>\<close>
  "parse_canonical s =
     (if canonical_text s
      then checked \<lparr>year = nat_of_digits (take 4 s), month = nat_of_digits (take 2 (drop 5 s)),
                    day = nat_of_digits (take 2 (drop 8 s)),
                    hh = nat_of_digits (take 2 (drop 11 s)),
                    mi = nat_of_digits (take 2 (drop 14 s)),
                    ss = nat_of_digits (take 2 (drop 17 s))\<rparr>
      else Inl ValueError)"

definition canon_to_datetime :: "string \<Rightarrow> exn + civil" where
  "canon_to_datetime s =
     bind_exn (case parse_canonical s of Inr dt \<Rightarrow> Inr dt | Inl e \<Rightarrow> parse_date s) bounded"

definition set_field :: "char \<Rightarrow> nat \<Rightarrow> civil \<Rightarrow> civil" where
  \<comment> \<open>the field that a directive of the format writes\<close>
  "set_field d n dt =
     (if d = CHR ''Y'' then dt\<lparr>year := n\<rparr>
      else if d = CHR ''m'' then dt\<lparr>month := n\<rparr>
      else if d = CHR ''d'' then dt\<lparr>day := n\<rparr>
      else if d = CHR ''H'' then dt\<lparr>hh := n\<rparr>
      else if d = CHR ''M'' then dt\<lparr>mi := n\<rparr>
      else dt\<lparr>ss := n\<rparr>)"

fun scan_format :: "string \<Rightarrow> string \<Rightarrow> civil \<Rightarrow> civil option" where
  \<comment> \<open>matching a text against a format, left to right; \<open>None\<close> when the text does not match\<close>
  "scan_format [] s dt = (if s = [] then Some dt else None)"
| "scan_format [c] s dt =
     (case s of
        [] \<Rightarrow> None
      | x # s' \<Rightarrow> if is_space c \<and> is_space x then scan_format [] (dropWhile is_space s') dt
                 else if x = c \<and> c \<noteq> CHR ''%'' then scan_format [] s' dt else None)"
| "scan_format (c # d # fmt) s dt =
     (if c = CHR ''%'' then
        (if d = CHR ''Y'' then
           (if isdigit (take 4 s) \<and> length (take 4 s) = 4
            then scan_format fmt (drop 4 s) (set_field d (nat_of_digits (take 4 s)) dt)
            else None)
         else if d \<in> set ''mdHMS'' then
           (case take_digits12 s of
              Some (ds, rest) \<Rightarrow> scan_format fmt rest (set_field d (nat_of_digits ds) dt)
            | None \<Rightarrow> None)
         else None)
      else
        (case s of
           [] \<Rightarrow> None
         | x # s' \<Rightarrow> if is_space c \<and> is_space x then scan_format (d # fmt) (dropWhile is_space s') dt
                    else if x = c then scan_format (d # fmt) s' dt else None))"

definition canon_strptime :: "string \<Rightarrow> string \<Rightarrow> exn + civil" where
  \<comment> \<open>fields that the format does not name keep the defaults of \<^verbatim>\<open>strptime\<close>\<close>
  "canon_strptime s fmt =
     (case scan_format fmt s \<lparr>year = 1900, month = 1, day = 1, hh = 0, mi = 0, ss = 0\<rparr> of
        Some dt \<Rightarrow> checked dt
      | None \<Rightarrow> Inl ValueError)"

definition render_civil :: "civil \<Rightarrow> string" where
  "render_civil dt =
     str_of_nat (year dt) @ ''-'' @ pad2 (month dt) @ ''-'' @ pad2 (day dt) @ '' ''
     @ pad2 (hh dt) @ '':'' @ pad2 (mi dt) @ '':'' @ pad2 (ss dt)"

definition canon_strftime :: "civil \<Rightarrow> exn + string" where
  \<comment> \<open>only a date that exists is rendered\<close>
  "canon_strftime dt = (if valid_civil dt then Inr (render_civil dt) else Inl ValueError)"

definition canon_float :: "string \<Rightarrow> exn + real" where
  \<comment> \<open>an optional minus sign, then digits with an optional point\<close>
  "canon_float s =
     (let neg = (s \<noteq> [] \<and> hd s = CHR ''-'');
          body = (if neg then tl s else s);
          ip = takeWhile is_digit body;
          rest = dropWhile is_digit body;
          fp = (if rest = [] then [] else tl rest);
          v = real_of_int (int_of_digits ip) + real_of_int (int_of_digits fp) / 10 ^ length fp
      in if (rest = [] \<or> hd rest = CHR ''.'') \<and> list_all is_digit fp \<and> (ip \<noteq> [] \<or> fp \<noteq> [])
         then Inr (if neg then - v else v)
         else Inl ValueError)"

definition canon_unit_s :: "real \<Rightarrow> exn + civil" where
  "canon_unit_s x = (if in_bounds x then Inr (civil_of_seconds \<lfloor>x\<rfloor>) else Inl ValueError)"

definition canon_lib :: "civil datelib" where
  "canon_lib =
     \<lparr>to_datetime = canon_to_datetime,
      py_float = canon_float,
      to_datetime_unit_s = canon_unit_s,
      strptime = canon_strptime,
      strftime = canon_strftime,
      is_nat = (\<lambda>dt. False),
      timestamp = (\<lambda>dt. Inr (canon_timestamp dt)),
      dt_hour = hh,
      dt_dayofweek = (\<lambda>dt. nat ((days_from_civil (year dt) (month dt) (day dt) + 3) mod 7))\<rparr>"

subsection \<open>Tables\<close>

record row =
  route_id :: route_val
  scheduled_time :: "string option"
  actual_time :: "string option"
  weather :: "string option"
  passenger_count :: "real option"
  latitude :: "real option"
  longitude :: "real option"

type_synonym table = "row list"

definition present :: "'a option list \<Rightarrow> 'a list" where
  \<comment> \<open>the values of a column that are not missing, in row order (\<^verbatim>\<open>skipna\<close>, \<^verbatim>\<open>dropna\<close>)\<close>
  "present col = [v. Some v \<leftarrow> col]"

definition fillna :: "'a option \<Rightarrow> 'a option list \<Rightarrow> 'a option list" where
  \<comment> \<open>\<^verbatim>\<open>col.fillna(value)\<close>; filling with \<^verbatim>\<open>NaN\<close> changes nothing\<close>
  "fillna fill col = map (\<lambda>v. if v = None then fill else v) col"

fun ffill :: "route_val \<Rightarrow> route_val list \<Rightarrow> route_val list" where
  \<comment> \<open>\<^verbatim>\<open>col.ffill()\<close>, with the last value seen that is not missing (\<open>RNone\<close> before the first)\<close>
  "ffill prev [] = []"
| "ffill prev (v # vs) = (if v = RNone then prev # ffill prev vs else v # ffill v vs)"

definition mode :: "string option list \<Rightarrow> string list" where
  \<comment> \<open>\<^verbatim>\<open>col.mode()\<close>: the most frequent values among those present, sorted\<close>
  "mode col =
     (let vals = present col;
          best = fold max (map (count_list vals) vals) 0
      in sort (remdups (filter (\<lambda>v. count_list vals v = best) vals)))"

definition median :: "real option list \<Rightarrow> real option" where
  \<comment> \<open>\<^verbatim>\<open>col.median()\<close>: \<^verbatim>\<open>NaN\<close> when no value is present\<close>
  "median col =
     (let vals = sort (present col); n = length vals
      in if n = 0 then None
         else if odd n then Some (vals ! (n div 2))
         else Some ((vals ! (n div 2 - 1) + vals ! (n div 2)) / 2))"

definition quantile :: "real option list \<Rightarrow> real \<Rightarrow> real option" where
  \<comment> \<open>\<^verbatim>\<open>col.quantile(q)\<close> with linear interpolation between the two nearest ranks\<close>
  "quantile col q =
     (let vals = sort (present col); n = length vals
      in if n = 0 then None
         else
           let pos = (real n - 1) * q;
               lo = nat \<lfloor>pos\<rfloor>;
               hi = min (lo + 1) (n - 1)
           in Some (vals ! lo + (vals ! hi - vals ! lo) * (pos - real lo)))"

definition py_max :: "real \<Rightarrow> real option \<Rightarrow> real" where
  \<comment> \<open>\<^verbatim>\<open>max(a, x)\<close>: the builtin keeps \<open>a\<close> unless \<^verbatim>\<open>x > a\<close>, which is false for \<^verbatim>\<open>NaN\<close>\<close>
  "py_max a x = (case x of None \<Rightarrow> a | Some v \<Rightarrow> if v > a then v else a)"

definition py_min :: "real \<Rightarrow> real option \<Rightarrow> real" where
  \<comment> \<open>\<^verbatim>\<open>min(a, x)\<close>: the builtin keeps \<open>a\<close> unless \<^verbatim>\<open>x < a\<close>, which is false for \<^verbatim>\<open>NaN\<close>\<close>
  "py_min a x = (case x of None \<Rightarrow> a | Some v \<Rightarrow> if v < a then v else a)"

definition clip_value :: "real \<Rightarrow> real \<Rightarrow> real \<Rightarrow> real" where
  \<comment> \<open>one cell of \<^verbatim>\<open>col.clip(lower, upper)\<close>: pandas first orders the two scalar bounds\<close>
  "clip_value lower upper x =
     (let lo = min lower upper; hi = max lower upper
      in if x < lo then lo else if x > hi then hi else x)"

definition clip :: "real \<Rightarrow> real \<Rightarrow> real option list \<Rightarrow> real option list" where
  \<comment> \<open>\<^verbatim>\<open>col.clip(lower, upper)\<close>: a missing cell stays missing\<close>
  "clip lower upper col = map (map_option (clip_value lower upper)) col"

subsection \<open>The stages of \<^verbatim>\<open>DataCleaner\<close>\<close>

definition set_route_id :: "table \<Rightarrow> route_val list \<Rightarrow> table" where
  \<comment> \<open>\<^verbatim>\<open>df['route_id'] = col\<close>\<close>
  "set_route_id df col = map2 (\<lambda>r v. r\<lparr>route_id := v\<rparr>) df col"

definition set_weather :: "table \<Rightarrow> string option list \<Rightarrow> table" where
  "set_weather df col = map2 (\<lambda>r v. r\<lparr>weather := v\<rparr>) df col"

definition set_passenger_count :: "table \<Rightarrow> real option list \<Rightarrow> table" where
  "set_passenger_count df col = map2 (\<lambda>r v. r\<lparr>passenger_count := v\<rparr>) df col"

definition set_scheduled_time :: "table \<Rightarrow> string option list \<Rightarrow> table" where
  "set_scheduled_time df col = map2 (\<lambda>r v. r\<lparr>scheduled_time := v\<rparr>) df col"

definition set_actual_time :: "table \<Rightarrow> string option list \<Rightarrow> table" where
  "set_actual_time df col = map2 (\<lambda>r v. r\<lparr>actual_time := v\<rparr>) df col"

definition fill_route_id :: "table \<Rightarrow> table" where
  "fill_route_id df = set_route_id df (ffill RNone (map route_id df))"

definition fill_weather :: "table \<Rightarrow> table" where
  "fill_weather df =
     (let mode_weather = (if mode (map weather df) \<noteq> [] then hd (mode (map weather df))
                          else ''clear'')
      in set_weather df (fillna (Some mode_weather) (map weather df)))"

definition fill_passenger_count :: "table \<Rightarrow> table" where
  "fill_passenger_count df =
     (let median_passengers = median (map passenger_count df)
      in set_passenger_count df (fillna median_passengers (map passenger_count df)))"

definition gps_isnull :: "row \<Rightarrow> bool" where
  \<comment> \<open>\<^verbatim>\<open>df[['latitude', 'longitude']].isnull().any(axis=1)\<close>\<close>
  "gps_isnull r = (latitude r = None \<or> longitude r = None)"

definition drop_missing_gps :: "table \<Rightarrow> table" where
  "drop_missing_gps df =
     (let gps_missing = length (filter gps_isnull df)
      in if gps_missing > 0 then filter (\<lambda>r. \<not> gps_isnull r) df else df)"

definition handle_missing_values :: "table \<Rightarrow> table" where
  "handle_missing_values df =
     drop_missing_gps (fill_passenger_count (fill_weather (fill_route_id df)))"

fun apply_parse :: "'dt datelib \<Rightarrow> string option list \<Rightarrow> exn + string option list" where
  \<comment> \<open>\<^verbatim>\<open>col.apply(self._parse_timestamp)\<close>: an exception of one call ends the whole apply\<close>
  "apply_parse lib [] = Inr []"
| "apply_parse lib (v # vs) =
     bind_exn (parse_timestamp lib v)
       (\<lambda>r. bind_exn (apply_parse lib vs) (\<lambda>rs. Inr (r # rs)))"

definition standardize_timestamps :: "'dt datelib \<Rightarrow> table \<Rightarrow> exn + table" where
  \<comment> \<open>the loop over \<^verbatim>\<open>['scheduled_time', 'actual_time']\<close>\<close>
  "standardize_timestamps lib df =
     bind_exn (apply_parse lib (map scheduled_time df))
       (\<lambda>col1. let df1 = set_scheduled_time df col1
               in bind_exn (apply_parse lib (map actual_time df1))
                    (\<lambda>col2. Inr (set_actual_time df1 col2)))"

definition normalize_weather :: "table \<Rightarrow> table" where
  "normalize_weather df =
     set_weather df (map (\<lambda>v. Some (normalize_weather_value v)) (map weather df))"

definition unify_route_identifiers :: "table \<Rightarrow> table" where
  "unify_route_identifiers df =
     set_route_id df (map (\<lambda>v. RInt (extract_route_number v)) (map route_id df))"

definition lower_bound :: "real option list \<Rightarrow> real" where
  "lower_bound col =
     (let Q1 = quantile col (1 / 4); Q3 = quantile col (3 / 4);
          IQR = (case (Q3, Q1) of (Some a, Some b) \<Rightarrow> Some (a - b) | _ \<Rightarrow> None)
      in py_max 0 (case (Q1, IQR) of (Some a, Some i) \<Rightarrow> Some (a - 1.5 * i) | _ \<Rightarrow> None))"

definition upper_bound :: "real option list \<Rightarrow> real" where
  "upper_bound col =
     (let Q1 = quantile col (1 / 4); Q3 = quantile col (3 / 4);
          IQR = (case (Q3, Q1) of (Some a, Some b) \<Rightarrow> Some (a - b) | _ \<Rightarrow> None)
      in py_min 500 (case (Q3, IQR) of (Some a, Some i) \<Rightarrow> Some (a + 1.5 * i) | _ \<Rightarrow> None))"

definition treat_outliers :: "table \<Rightarrow> table" where
  "treat_outliers df =
     (let col = map passenger_count df;
          capped = clip (lower_bound col) (upper_bound col) col
      in set_passenger_count df (clip 0 500 capped))"

definition invalid_lat :: "row \<Rightarrow> bool" where
  \<comment> \<open>a comparison with \<^verbatim>\<open>NaN\<close> is false\<close>
  "invalid_lat r = (case latitude r of None \<Rightarrow> False | Some x \<Rightarrow> x < - 90 \<or> x > 90)"

definition invalid_lon :: "row \<Rightarrow> bool" where
  "invalid_lon r = (case longitude r of None \<Rightarrow> False | Some x \<Rightarrow> x < - 180 \<or> x > 180)"

definition handle_gps_coordinates :: "table \<Rightarrow> table" where
  "handle_gps_coordinates df =
     (let invalid_count = length (filter (\<lambda>r. invalid_lat r \<or> invalid_lon r) df)
      in if invalid_count > 0 then filter (\<lambda>r. \<not> invalid_lat r \<and> \<not> invalid_lon r) df
         else df)"

definition clean_all :: "'dt datelib \<Rightarrow> table \<Rightarrow> exn + table" where
  "clean_all lib df =
     bind_exn (standardize_timestamps lib (handle_missing_values df))
       (\<lambda>df2. Inr (handle_gps_coordinates (treat_outliers
                 (unify_route_identifiers (normalize_weather df2)))))"

subsection \<open>The stages of \<^verbatim>\<open>FeatureEngineer\<close>\<close>

text \<open>
  The feature table has the columns of the cleaned table, with the two time columns holding
  date-time values, and the feature columns. A feature column that has not been assigned yet
  holds \<open>None\<close> in every row.
\<close>

record 'dt frow =
  f_route_id :: route_val
  f_scheduled_time :: "'dt option"
  f_actual_time :: "'dt option"
  f_weather :: "string option"
  f_passenger_count :: "real option"
  f_latitude :: "real option"
  f_longitude :: "real option"
  delay_minutes :: "real option"
  hour :: "nat option"
  time_of_day :: "nat option"
  day_of_week :: "nat option"
  is_weekend :: "nat option"
  weather_severity :: "nat option"
  route_frequency :: "real option"

type_synonym 'dt ftable = "'dt frow list"

definition coerce_datetime :: "'dt datelib \<Rightarrow> string option \<Rightarrow> 'dt option" where
  \<comment> \<open>one cell of \<^verbatim>\<open>pd.to_datetime(col, errors='coerce')\<close>: a text that does not parse gives \<^verbatim>\<open>NaT\<close>\<close>
  "coerce_datetime lib v =
     (case v of
        None \<Rightarrow> None
      | Some s \<Rightarrow>
          (case to_datetime lib s of
             Inl e \<Rightarrow> None
           | Inr dt \<Rightarrow> if is_nat lib dt then None else Some dt))"

definition to_datetime_columns :: "'dt datelib \<Rightarrow> row \<Rightarrow> 'dt frow" where
  \<comment> \<open>the two conversions and \<^verbatim>\<open>df['delay_minutes'] = pd.NA\<close>, for one row\<close>
  "to_datetime_columns lib r =
     \<lparr>f_route_id = route_id r,
      f_scheduled_time = coerce_datetime lib (scheduled_time r),
      f_actual_time = coerce_datetime lib (actual_time r),
      f_weather = weather r, f_passenger_count = passenger_count r,
      f_latitude = latitude r, f_longitude = longitude r,
      delay_minutes = None, hour = None, time_of_day = None, day_of_week = None,
      is_weekend = None, weather_severity = None, route_frequency = None\<rparr>"

definition caught :: "exn \<Rightarrow> bool" where
  \<comment> \<open>\<^verbatim>\<open>except (OverflowError, ValueError, OSError)\<close>\<close>
  "caught e = (e = OverflowError \<or> e = ValueError \<or> e = OSError)"

definition delay_body :: "'dt datelib \<Rightarrow> 'dt \<Rightarrow> 'dt \<Rightarrow> exn + real option" where
  \<comment> \<open>the body of the \<^verbatim>\<open>try\<close> for one valid row: \<open>Some\<close> is the value written to the row, \<open>None\<close>
      leaves the cell \<^verbatim>\<open>NA\<close>\<close>
  "delay_body lib sched actual =
     bind_exn (timestamp lib sched)
       (\<lambda>sched_ts. bind_exn (timestamp lib actual)
          (\<lambda>actual_ts.
             let delay_sec = actual_ts - sched_ts;
                 delay_min = delay_sec / 60
             in if - 525600 \<le> delay_min \<and> delay_min \<le> 525600 then Inr (Some delay_min)
                else Inr None))"

definition delay_row :: "'dt datelib \<Rightarrow> 'dt frow \<Rightarrow> exn + 'dt frow" where
  \<comment> \<open>one round of the loop over \<^verbatim>\<open>df.index\<close>: an exception of the three classes leaves the row
      as it is, any other exception leaves the loop\<close>
  "delay_row lib r =
     (case (f_scheduled_time r, f_actual_time r) of
        (Some sched, Some actual) \<Rightarrow>
          (case delay_body lib sched actual of
             Inr (Some delay_min) \<Rightarrow> Inr (r\<lparr>delay_minutes := Some delay_min\<rparr>)
           | Inr None \<Rightarrow> Inr r
           | Inl e \<Rightarrow> if caught e then Inr r else Inl e)
      | _ \<Rightarrow> Inr r)"

fun delay_loop :: "'dt datelib \<Rightarrow> 'dt ftable \<Rightarrow> exn + 'dt ftable" where
  "delay_loop lib [] = Inr []"
| "delay_loop lib (r # rs) =
     bind_exn (delay_row lib r) (\<lambda>r'. bind_exn (delay_loop lib rs) (\<lambda>rs'. Inr (r' # rs')))"

definition clip_delay :: "'dt ftable \<Rightarrow> 'dt ftable" where
  \<comment> \<open>\<^verbatim>\<open>df['delay_minutes'] = df['delay_minutes'].clip(lower=0)\<close>\<close>
  "clip_delay df =
     map (\<lambda>r. r\<lparr>delay_minutes := map_option (\<lambda>x. if x < 0 then 0 else x) (delay_minutes r)\<rparr>) df"

definition dropna_delay :: "'dt ftable \<Rightarrow> 'dt ftable" where
  \<comment> \<open>\<^verbatim>\<open>df.dropna(subset=['delay_minutes'])\<close>\<close>
  "dropna_delay df = filter (\<lambda>r. delay_minutes r \<noteq> None) df"

definition compute_delay_duration :: "'dt datelib \<Rightarrow> table \<Rightarrow> exn + 'dt ftable" where
  "compute_delay_duration lib df =
     bind_exn (delay_loop lib (map (to_datetime_columns lib) df))
       (\<lambda>df1. Inr (dropna_delay (clip_delay df1)))"

definition categorize_time :: "nat option \<Rightarrow> nat" where
  "categorize_time h =
     (case h of
        None \<Rightarrow> 1
      | Some hr \<Rightarrow>
          if 6 \<le> hr \<and> hr < 12 then 0
          else if 12 \<le> hr \<and> hr < 18 then 1
          else if 18 \<le> hr \<and> hr < 24 then 2
          else 3)"

definition generate_time_features :: "'dt datelib \<Rightarrow> 'dt ftable \<Rightarrow> 'dt ftable" where
  "generate_time_features lib df =
     map (\<lambda>r. r\<lparr>hour := map_option (dt_hour lib) (f_scheduled_time r),
                 time_of_day := Some (categorize_time
                                   (map_option (dt_hour lib) (f_scheduled_time r)))\<rparr>) df"

definition identify_weekend :: "'dt datelib \<Rightarrow> 'dt ftable \<Rightarrow> 'dt ftable" where
  \<comment> \<open>the comparison \<^verbatim>\<open>day_of_week >= 5\<close> is false for a missing value\<close>
  "identify_weekend lib df =
     map (\<lambda>r. r\<lparr>day_of_week := map_option (dt_dayofweek lib) (f_scheduled_time r),
                 is_weekend :=
                   Some (case map_option (dt_dayofweek lib) (f_scheduled_time r) of
                           None \<Rightarrow> 0
                         | Some d \<Rightarrow> if d \<ge> 5 then 1 else 0)\<rparr>) df"

definition severity_map :: "(string \<times> nat) list" where
  "severity_map = [(''clear'', 0), (''cloudy'', 1), (''rainy'', 2), (''snowy'', 3)]"

definition compute_weather_severity :: "'dt ftable \<Rightarrow> 'dt ftable" where
  \<comment> \<open>\<^verbatim>\<open>df['weather'].map(severity_map).fillna(0)\<close>\<close>
  "compute_weather_severity df =
     map (\<lambda>r. r\<lparr>weather_severity :=
                   Some (case Option.bind (f_weather r) (map_of severity_map) of
                           None \<Rightarrow> 0
                         | Some s \<Rightarrow> s)\<rparr>) df"

definition calculate_route_frequency :: "'dt ftable \<Rightarrow> 'dt ftable" where
  \<comment> \<open>\<^verbatim>\<open>value_counts()\<close> leaves missing routes out, so their frequency is missing\<close>
  "calculate_route_frequency df =
     (let total_trips = length df
      in map (\<lambda>r. r\<lparr>route_frequency :=
                      (if f_route_id r = RNone then None
                       else Some (real (count_list (map f_route_id df) (f_route_id r))
                                  / real total_trips))\<rparr>) df)"

definition engineer_all_features :: "'dt datelib \<Rightarrow> table \<Rightarrow> exn + 'dt ftable" where
  "engineer_all_features lib df =
     bind_exn (compute_delay_duration lib df)
       (\<lambda>df1. Inr (calculate_route_frequency (compute_weather_severity
                  (identify_weekend lib (generate_time_features lib df1)))))"

text \<open>
  The specification's wording of the delay of one row: both times parse, both instants are
  known, the difference in minutes is within a year, and an early arrival counts as 0.
\<close>

definition spec_delay :: "'dt datelib \<Rightarrow> row \<Rightarrow> real option" where
  "spec_delay lib r =
     (case (coerce_datetime lib (scheduled_time r), coerce_datetime lib (actual_time r)) of
        (Some sched, Some actual) \<Rightarrow>
          (case (timestamp lib sched, timestamp lib actual) of
             (Inr sched_ts, Inr actual_ts) \<Rightarrow>
               if \<bar>(actual_ts - sched_ts) / 60\<bar> \<le> 525600
               then Some (max 0 ((actual_ts - sched_ts) / 60))
               else None
           | _ \<Rightarrow> None)
      | _ \<Rightarrow> None)"

text \<open>
  The specification's wording of the missing-value policies, row by row: the route of the
  nearest row at or before this one that has a route, the most frequent weather of the whole
  column (or \<open>clear\<close>), the median of the whole column.
\<close>

definition last_seen :: "route_val list \<Rightarrow> route_val" where
  "last_seen vs = (case filter (\<lambda>v. v \<noteq> RNone) vs of [] \<Rightarrow> RNone | xs \<Rightarrow> last xs)"

definition spec_repaired_row :: "table \<Rightarrow> nat \<Rightarrow> row" where
  "spec_repaired_row df i =
     (df ! i)
       \<lparr>route_id := last_seen (take (Suc i) (map route_id df)),
        weather :=
          (case weather (df ! i) of
             None \<Rightarrow> Some (if mode (map weather df) \<noteq> [] then hd (mode (map weather df))
                           else ''clear'')
           | Some w \<Rightarrow> Some w),
        passenger_count :=
          (case passenger_count (df ! i) of
             None \<Rightarrow> median (map passenger_count df)
           | Some p \<Rightarrow> Some p)\<rparr>"






text \<open>A row with every cell present and valid, from which the examples below are built.\<close>

definition base_row :: row where
  "base_row =
     \<lparr>route_id = RInt 1, scheduled_time = None, actual_time = None, weather = Some ''clear'',
      passenger_count = Some 10, latitude = Some 0, longitude = Some 0\<rparr>"

section \<open>Properties\<close>

subsection \<open>Strings\<close>

lemma py_in_sublist: "py_in sub s = sublist sub s"
  by (induction s) (auto simp: sublist_Cons_right)

subsection \<open>Category normalizer\<close>

lemma match_weather_spec:
  "match_weather weather_mapping t =
     (case find (\<lambda>c. category_matches c t) [Clear, Cloudy, Rainy, Snowy] of
        Some c \<Rightarrow> category_name c | None \<Rightarrow> ''clear'')"
  by (simp add: weather_mapping_def category_matches_def py_in_sublist)



text \<open>
  Claim C6. For every raw weather value the category normalizer lower-cases and trims it and
  returns the first category, in the order clear, cloudy, rainy, snowy, whose synonym set
  contains the value or has a synonym occurring inside the value; an absent value and a value
  matching nothing give \<open>clear\<close>. \<open>Rain\<close> becomes \<open>rainy\<close> and \<open>foggy\<close> becomes \<open>clear\<close>.
\<close>

theorem normalize_weather_value_spec:
  "normalize_weather_value v = spec_normalize_weather v
   \<and> normalize_weather_value None = ''clear''
   \<and> normalize_weather_value (Some ''Rain'') = ''rainy''
   \<and> normalize_weather_value (Some ''foggy'') = ''clear''"
proof -
  have "normalize_weather_value v = spec_normalize_weather v"
    by (simp add: normalize_weather_value_def spec_normalize_weather_def match_weather_spec
        split: option.splits)
  moreover have "normalize_weather_value (Some ''Rain'') = ''rainy''"
    by (simp add: normalize_weather_value_def weather_mapping_def strip_def str_lower_def
        lower_char_def is_space_def)
  moreover have "normalize_weather_value (Some ''foggy'') = ''clear''"
    by (simp add: normalize_weather_value_def weather_mapping_def strip_def str_lower_def
        lower_char_def is_space_def)
  ultimately show ?thesis by (simp add: normalize_weather_value_def)
qed

theorem normalize_weather_value_spec_witness:
  "normalize_weather_value (Some '' Light DRIZZLE '') = ''rainy''
   \<and> spec_normalize_weather (Some '' Light DRIZZLE '') = ''rainy''"
proof -
  have "normalize_weather_value (Some '' Light DRIZZLE '') = ''rainy''"
    by (simp add: normalize_weather_value_def weather_mapping_def strip_def str_lower_def
        lower_char_def is_space_def)
  with normalize_weather_value_spec [of "Some '' Light DRIZZLE ''"] show ?thesis by simp
qed

subsection \<open>Identifier unifier\<close>

lemma digit_runs_split:
  "digit_runs cur s =
     (if cur @ takeWhile is_digit s = [] then [] else [cur @ takeWhile is_digit s])
     @ digit_runs [] (dropWhile is_digit s)"
  by (induction s arbitrary: cur) auto

lemma digit_runs_skip:
  "digit_runs [] s = digit_runs [] (dropWhile (\<lambda>c. \<not> is_digit c) s)"
  by (induction s) auto

lemma findall_digits_empty:
  "(findall_digits s = []) = (\<forall>c \<in> set s. \<not> is_digit c)"
proof (induction s)
  case Nil
  show ?case by (simp add: findall_digits_def)
next
  case (Cons c cs)
  show ?case
  proof (cases "is_digit c")
    case True
    have "digit_runs [] (c # cs) \<noteq> []"
      by (subst digit_runs_split) (simp add: True)
    with True show ?thesis by (auto simp: findall_digits_def)
  next
    case False
    with Cons show ?thesis by (simp add: findall_digits_def)
  qed
qed

lemma findall_digits_hd:
  assumes "findall_digits s \<noteq> []"
  shows "hd (findall_digits s) = takeWhile is_digit (dropWhile (\<lambda>c. \<not> is_digit c) s)"
proof -
  let ?r = "dropWhile (\<lambda>c. \<not> is_digit c) s"
  from assms have "\<exists>c \<in> set s. is_digit c"
    by (simp add: findall_digits_empty)
  then have "?r \<noteq> []" by (auto simp: dropWhile_eq_Nil_conv)
  then have "is_digit (hd ?r)" using hd_dropWhile [of "\<lambda>c. \<not> is_digit c" s] by simp
  with \<open>?r \<noteq> []\<close> have tw: "takeWhile is_digit ?r \<noteq> []"
    by (cases ?r) auto
  have "findall_digits s = digit_runs [] ?r"
    unfolding findall_digits_def by (rule digit_runs_skip)
  also have "\<dots> = [takeWhile is_digit ?r] @ digit_runs [] (dropWhile is_digit ?r)"
    by (subst digit_runs_split) (simp add: tw)
  finally show ?thesis by simp
qed

text \<open>
  Claim C7. The identifier unifier returns 1 on an absent value; otherwise, when the text of
  the value has a digit, it takes the first run of digits and clamps its number into 1..10;
  when the text has no digit it returns 1 if the lower-cased text contains \<open>one\<close> or \<open>1\<close>,
  else 2 if it contains \<open>two\<close> or \<open>2\<close>, else 1. \<open>Route 12\<close> becomes 10 and \<open>R3\<close> becomes 3.
\<close>

theorem extract_route_number_spec:
  "extract_route_number RNone = 1
   \<and> (v \<noteq> RNone \<and> (\<exists>c \<in> set (str_of_route v). is_digit c) \<longrightarrow>
        extract_route_number v =
          min (max (int_of_digits (takeWhile is_digit
                 (dropWhile (\<lambda>c. \<not> is_digit c) (str_of_route v)))) 1) 10)
   \<and> (v \<noteq> RNone \<and> (\<forall>c \<in> set (str_of_route v). \<not> is_digit c) \<longrightarrow>
        extract_route_number v =
          (if sublist ''one'' (str_lower (str_of_route v)) \<or> sublist ''1'' (str_lower (str_of_route v))
           then 1
           else if sublist ''two'' (str_lower (str_of_route v))
                   \<or> sublist ''2'' (str_lower (str_of_route v)) then 2
           else 1))
   \<and> 1 \<le> extract_route_number v \<and> extract_route_number v \<le> 10
   \<and> extract_route_number (RStr ''Route 12'') = 10
   \<and> extract_route_number (RStr ''R3'') = 3"
proof -
  have a: "extract_route_number RNone = 1"
    by (simp add: extract_route_number_def)
  have b: "extract_route_number v =
          min (max (int_of_digits (takeWhile is_digit
                 (dropWhile (\<lambda>c. \<not> is_digit c) (str_of_route v)))) 1) 10"
    if "v \<noteq> RNone" "\<exists>c \<in> set (str_of_route v). is_digit c"
  proof -
    from that(2) have ne: "findall_digits (str_of_route v) \<noteq> []"
      by (simp add: findall_digits_empty)
    with that(1) show ?thesis
      by (simp add: extract_route_number_def Let_def findall_digits_hd)
  qed
  have c: "extract_route_number v =
          (if sublist ''one'' (str_lower (str_of_route v)) \<or> sublist ''1'' (str_lower (str_of_route v))
           then 1
           else if sublist ''two'' (str_lower (str_of_route v))
                   \<or> sublist ''2'' (str_lower (str_of_route v)) then 2
           else 1)"
    if "v \<noteq> RNone" "\<forall>c \<in> set (str_of_route v). \<not> is_digit c"
  proof -
    from that(2) have "findall_digits (str_of_route v) = []"
      by (simp add: findall_digits_empty)
    with that(1) show ?thesis
      by (simp add: extract_route_number_def Let_def py_in_sublist)
  qed
  have d1: "1 \<le> extract_route_number v"
    by (simp add: extract_route_number_def Let_def)
  have d2: "extract_route_number v \<le> 10"
    by (simp add: extract_route_number_def Let_def)
  have e: "extract_route_number (RStr ''Route 12'') = 10"
    by (simp add: extract_route_number_def findall_digits_def is_digit_def digit_val_def
        int_of_digits_def)
  have f: "extract_route_number (RStr ''R3'') = 3"
    by (simp add: extract_route_number_def findall_digits_def is_digit_def digit_val_def
        int_of_digits_def)
  from b have b': "v \<noteq> RNone \<and> (\<exists>c \<in> set (str_of_route v). is_digit c) \<longrightarrow>
        extract_route_number v =
          min (max (int_of_digits (takeWhile is_digit
                 (dropWhile (\<lambda>c. \<not> is_digit c) (str_of_route v)))) 1) 10"
    by (intro impI) (elim conjE)
  from c have c': "v \<noteq> RNone \<and> (\<forall>c \<in> set (str_of_route v). \<not> is_digit c) \<longrightarrow>
        extract_route_number v =
          (if sublist ''one'' (str_lower (str_of_route v)) \<or> sublist ''1'' (str_lower (str_of_route v))
           then 1
           else if sublist ''two'' (str_lower (str_of_route v))
                   \<or> sublist ''2'' (str_lower (str_of_route v)) then 2
           else 1)"
    by (intro impI) (elim conjE)
  show ?thesis
    by (intro conjI) (rule a b' c' d1 d2 e f)+
qed

theorem extract_route_number_spec_witness:
  "extract_route_number (RStr ''Line 7A/12'') = 7
   \<and> extract_route_number (RStr ''Route Two'') = 2
   \<and> extract_route_number (RInt 0) = 1"
proof -
  have d1: "\<exists>c \<in> set (str_of_route (RStr ''Line 7A/12'')). is_digit c"
    by (simp add: is_digit_def digit_val_def)
  have d2: "\<forall>c \<in> set (str_of_route (RStr ''Route Two'')). \<not> is_digit c"
    by (simp add: is_digit_def digit_val_def)
  have d3: "\<exists>c \<in> set (str_of_route (RInt 0)). is_digit c"
    by (simp add: is_digit_def digit_val_def str_of_int_def)
  have "extract_route_number (RStr ''Line 7A/12'') = 7"
    using extract_route_number_spec [of "RStr ''Line 7A/12''"] d1
    by (simp add: is_digit_def digit_val_def int_of_digits_def)
  moreover have "extract_route_number (RStr ''Route Two'') = 2"
    using extract_route_number_spec [of "RStr ''Route Two''"] d2
    by (simp add: str_lower_def lower_char_def py_in_sublist [symmetric])
  moreover have "extract_route_number (RInt 0) = 1"
    using extract_route_number_spec [of "RInt 0"] d3
    by (simp add: is_digit_def digit_val_def int_of_digits_def str_of_int_def)
  ultimately show ?thesis by simp
qed

subsection \<open>Timestamp normalizer\<close>

lemma except_pass_strftime:
  "except_pass (bind_exn m (strftime lib)) = Some s \<Longrightarrow> canonical_of lib s"
  by (auto simp: except_pass_def bind_exn_def canonical_of_def split: sum.splits)

lemma try_generic_canonical: "try_generic lib v = Some s \<Longrightarrow> canonical_of lib s"
  unfolding try_generic_def by (rule except_pass_strftime)

lemma try_unix_canonical: "try_unix lib v = Some s \<Longrightarrow> canonical_of lib s"
  by (auto simp: try_unix_def except_pass_def bind_exn_def canonical_of_def
      split: sum.splits if_splits)

lemma try_formats_canonical: "try_formats lib v fmts = Some s \<Longrightarrow> canonical_of lib s"
  by (induction fmts) (auto split: option.splits dest: except_pass_strftime)

lemma try_regex_canonical: "try_regex lib v = Some s \<Longrightarrow> canonical_of lib s"
  by (auto simp: try_regex_def split: option.splits dest: except_pass_strftime)

lemma parse_timestamp_eq: "parse_timestamp lib value = Inr (spec_parse_timestamp lib value)"
  by (simp add: parse_timestamp_def spec_parse_timestamp_def first_success_def attempts_def
      Let_def split: option.splits)

lemma spec_parse_timestamp_canonical:
  "spec_parse_timestamp lib value = Some s \<Longrightarrow> canonical_of lib s"
  by (auto simp: spec_parse_timestamp_def first_success_def attempts_def
      split: option.splits if_splits
      dest: try_generic_canonical try_unix_canonical try_formats_canonical try_regex_canonical)

text \<open>The normalizer returns for every value, and its result is the first success of the four
  attempts, in their order.\<close>

lemma parse_timestamp_attempts:
  "parse_timestamp lib value = Inr (spec_parse_timestamp lib value)
   \<and> (\<forall>s. parse_timestamp lib value = Inr (Some s) \<longrightarrow> canonical_of lib s)
   \<and> parse_timestamp lib None = Inr None
   \<and> (\<forall>v. value = Some v \<longrightarrow>
        parse_timestamp lib value =
          Inr (if try_generic lib (strip v) \<noteq> None then try_generic lib (strip v)
               else if try_unix lib (strip v) \<noteq> None then try_unix lib (strip v)
               else if try_formats lib (strip v) formats \<noteq> None
                 then try_formats lib (strip v) formats
               else try_regex lib (strip v)))
   \<and> (\<forall>v. value = Some v \<longrightarrow>
        (parse_timestamp lib value = Inr None) =
          (try_generic lib (strip v) = None \<and> try_unix lib (strip v) = None
           \<and> try_formats lib (strip v) formats = None \<and> try_regex lib (strip v) = None))"
proof -
  have b: "\<forall>s. parse_timestamp lib value = Inr (Some s) \<longrightarrow> canonical_of lib s"
    by (simp add: parse_timestamp_eq spec_parse_timestamp_canonical)
  have c: "parse_timestamp lib None = Inr None"
    by (simp add: parse_timestamp_def)
  have d: "\<forall>v. value = Some v \<longrightarrow>
        parse_timestamp lib value =
          Inr (if try_generic lib (strip v) \<noteq> None then try_generic lib (strip v)
               else if try_unix lib (strip v) \<noteq> None then try_unix lib (strip v)
               else if try_formats lib (strip v) formats \<noteq> None
                 then try_formats lib (strip v) formats
               else try_regex lib (strip v))"
    by (auto simp: parse_timestamp_def Let_def split: option.splits)
  have e: "\<forall>v. value = Some v \<longrightarrow>
        (parse_timestamp lib value = Inr None) =
          (try_generic lib (strip v) = None \<and> try_unix lib (strip v) = None
           \<and> try_formats lib (strip v) formats = None \<and> try_regex lib (strip v) = None)"
    by (auto simp: parse_timestamp_def Let_def split: option.splits)
  show ?thesis
    by (intro conjI) (rule parse_timestamp_eq b c d e)+
qed

text \<open>
  Each attempt decides some value: a numeric text is read as epoch seconds by the second
  attempt, a day-first date outside the range of the generic parse by the fourth explicit
  format, a date inside other text by the regular expression.
\<close>

lemma parse_timestamp_examples:
  "parse_timestamp canon_lib (Some ''1700000000'') = Inr (Some ''2023-11-14 22:13:20'')"
  "try_generic canon_lib ''1700000000'' = None"
  "try_unix canon_lib ''1700000000'' = Some ''2023-11-14 22:13:20''"
  "parse_timestamp canon_lib (Some ''01/02/0999 10:00:00'') = Inr (Some ''999-02-01 10:00:00'')"
  "try_unix canon_lib ''01/02/0999 10:00:00'' = None"
  "try_formats canon_lib ''01/02/0999 10:00:00'' formats = Some ''999-02-01 10:00:00''"
  "parse_timestamp canon_lib (Some ''  arrived 2024-3-5 late '') = Inr (Some ''2024-03-05 00:00:00'')"
  "try_formats canon_lib ''arrived 2024-3-5 late'' formats = None"
  "parse_timestamp canon_lib (Some (CHR 0xA0 # ''2024-01-05 10:30:00''))
     = Inr (Some ''2024-01-05 10:30:00'')"
  "parse_timestamp canon_lib (Some ''next week'') = Inr None"
  by code_simp+

text \<open>
  Claim C3 at the value \<open>0999-12-31 23:59:59\<close>. The normalizer returns, in the order of its
  attempts: the generic parse raises (the year is outside the range of a timestamp), the text
  is not numeric, and the first explicit format reads it. The result is rendered by
  \<^verbatim>\<open>strftime\<close>, which writes the year 999 with three digits, so the text returned is not of the
  form \<^verbatim>\<open>YYYY-MM-DD HH:MM:SS\<close>.
\<close>

theorem parse_timestamp_short_year:
  "parse_timestamp canon_lib (Some ''0999-12-31 23:59:59'') = Inr (Some ''999-12-31 23:59:59'')
   \<and> \<not> canonical_text ''999-12-31 23:59:59''
   \<and> try_generic canon_lib ''0999-12-31 23:59:59'' = None
   \<and> try_unix canon_lib ''0999-12-31 23:59:59'' = None
   \<and> strptime canon_lib ''0999-12-31 23:59:59'' ''%Y-%m-%d %H:%M:%S''
       = Inr \<lparr>year = 999, month = 12, day = 31, hh = 23, mi = 59, ss = 59\<rparr>
   \<and> strftime canon_lib \<lparr>year = 999, month = 12, day = 31, hh = 23, mi = 59, ss = 59\<rparr>
       = Inr ''999-12-31 23:59:59''"
  by code_simp

subsection \<open>Geospatial validator\<close>

lemma map2_same: "map2 g df (map h df) = map (\<lambda>r. g r (h r)) df"
  by (induction df) simp_all

lemma handle_gps_coordinates_filter:
  "handle_gps_coordinates df = filter (\<lambda>r. \<not> invalid_lat r \<and> \<not> invalid_lon r) df"
proof (cases "filter (\<lambda>r. invalid_lat r \<or> invalid_lon r) df = []")
  case True
  then have "\<forall>r \<in> set df. \<not> invalid_lat r \<and> \<not> invalid_lon r"
    by (simp add: filter_empty_conv)
  then have "filter (\<lambda>r. \<not> invalid_lat r \<and> \<not> invalid_lon r) df = df"
    by (simp add: filter_id_conv)
  with True show ?thesis by (simp add: handle_gps_coordinates_def)
next
  case False
  then show ?thesis by (simp add: handle_gps_coordinates_def)
qed

text \<open>
  Claim C10. The geospatial validation stage drops exactly the rows whose latitude is present
  and outside -90..90 or whose longitude is present and outside -180..180. An absent
  coordinate satisfies neither comparison: a row without coordinates, or with one coordinate
  absent and the other in range, stays. So this stage alone does not leave only rows with
  coordinates.
\<close>

theorem handle_gps_coordinates_spec:
  "handle_gps_coordinates df =
     filter (\<lambda>r. \<not> ((\<exists>x. latitude r = Some x \<and> (x < - 90 \<or> 90 < x))
                   \<or> (\<exists>y. longitude r = Some y \<and> (y < - 180 \<or> 180 < y)))) df
   \<and> (\<forall>r \<in> set df. latitude r = None \<and> longitude r = None \<longrightarrow>
         r \<in> set (handle_gps_coordinates df))
   \<and> (\<forall>r \<in> set df. latitude r = None \<and> (\<exists>y. longitude r = Some y \<and> - 180 \<le> y \<and> y \<le> 180) \<longrightarrow>
         r \<in> set (handle_gps_coordinates df))
   \<and> (\<forall>r \<in> set df. longitude r = None \<and> (\<exists>x. latitude r = Some x \<and> - 90 \<le> x \<and> x \<le> 90) \<longrightarrow>
         r \<in> set (handle_gps_coordinates df))"
proof -
  have eq: "(\<lambda>r. \<not> invalid_lat r \<and> \<not> invalid_lon r) =
        (\<lambda>r. \<not> ((\<exists>x. latitude r = Some x \<and> (x < - 90 \<or> 90 < x))
                   \<or> (\<exists>y. longitude r = Some y \<and> (y < - 180 \<or> 180 < y))))"
    by (rule ext) (auto simp: invalid_lat_def invalid_lon_def split: option.splits)
  have a: "handle_gps_coordinates df =
     filter (\<lambda>r. \<not> ((\<exists>x. latitude r = Some x \<and> (x < - 90 \<or> 90 < x))
                   \<or> (\<exists>y. longitude r = Some y \<and> (y < - 180 \<or> 180 < y)))) df"
    unfolding handle_gps_coordinates_filter eq ..
  show ?thesis
    unfolding a by auto
qed

theorem handle_gps_coordinates_spec_witness:
  "handle_gps_coordinates
     [base_row\<lparr>latitude := None\<rparr>, base_row\<lparr>latitude := Some 91\<rparr>,
      base_row\<lparr>latitude := None, longitude := Some 200\<rparr>,
      base_row\<lparr>latitude := None, longitude := None\<rparr>, base_row]
   = [base_row\<lparr>latitude := None\<rparr>, base_row\<lparr>latitude := None, longitude := None\<rparr>, base_row]"
  using handle_gps_coordinates_spec [THEN conjunct1, of
     "[base_row\<lparr>latitude := None\<rparr>, base_row\<lparr>latitude := Some 91\<rparr>,
      base_row\<lparr>latitude := None, longitude := Some 200\<rparr>,
      base_row\<lparr>latitude := None, longitude := None\<rparr>, base_row]"]
  by (simp add: base_row_def)

subsection \<open>Outlier treater\<close>


lemma clip_value_id:
  "min lower upper \<le> x \<Longrightarrow> x \<le> max lower upper \<Longrightarrow> clip_value lower upper x = x"
  by (auto simp: clip_value_def Let_def)

lemma clip_value_ordered:
  "lower \<le> upper \<Longrightarrow> clip_value lower upper x = max lower (min upper x)"
  by (auto simp: clip_value_def Let_def)

lemma lower_bound_nonneg: "0 \<le> lower_bound col"
  by (simp add: lower_bound_def py_max_def Let_def split: option.splits)

lemma upper_bound_le: "upper_bound col \<le> 500"
  by (simp add: upper_bound_def py_min_def Let_def split: option.splits)

lemma treat_outliers_map:
  "treat_outliers df =
     map (\<lambda>r. r\<lparr>passenger_count :=
           map_option (\<lambda>x. clip_value 0 500
              (clip_value (lower_bound (map passenger_count df))
                 (upper_bound (map passenger_count df)) x)) (passenger_count r)\<rparr>) df"
proof -
  have "clip 0 500 (clip l u (map passenger_count df)) =
    map (\<lambda>r. map_option (\<lambda>x. clip_value 0 500 (clip_value l u x)) (passenger_count r)) df" for l u
    by (simp add: clip_def option.map_comp comp_def)
  then show ?thesis
    by (simp add: treat_outliers_def Let_def set_passenger_count_def map2_same)
qed

lemma bounds_some:
  assumes "quantile col (1 / 4) = Some q1" "quantile col (3 / 4) = Some q3"
  shows "lower_bound col = max 0 (q1 - 1.5 * (q3 - q1))"
    and "upper_bound col = min 500 (q3 + 1.5 * (q3 - q1))"
  using assms by (auto simp: lower_bound_def upper_bound_def py_max_def py_min_def Let_def)

lemma sc_q1: "quantile [Some (- 50), Some 60, Some 70, Some 80, Some 600] (1 / 4) = Some 60"
  by (simp add: quantile_def present_def Let_def)
lemma sc_q3: "quantile [Some (- 50), Some 60, Some 70, Some 80, Some 600] (3 / 4) = Some 80"
  by (simp add: quantile_def present_def Let_def)

text \<open>
  Claim C5. The outlier treater takes the quartiles Q1 and Q3 of the passenger counts, sets the
  lower bound to max(0, Q1 - 1.5 IQR) and the upper bound to min(500, Q3 + 1.5 IQR), clips every
  value into the two bounds and then into 0..500, and keeps the number of rows. When the lower
  bound does not exceed the upper one, each value ends as its clamp into the two bounds. The
  column -50, 60, 70, 80, 600 has Q1 = 60 and Q3 = 80, bounds 30 and 110, and becomes
  30, 60, 70, 80, 110.
\<close>

theorem treat_outliers_spec:
  "length (treat_outliers df) = length df
   \<and> (\<forall>q1 q3. quantile (map passenger_count df) (1 / 4) = Some q1
               \<and> quantile (map passenger_count df) (3 / 4) = Some q3 \<longrightarrow>
          lower_bound (map passenger_count df) = max 0 (q1 - 1.5 * (q3 - q1))
          \<and> upper_bound (map passenger_count df) = min 500 (q3 + 1.5 * (q3 - q1)))
   \<and> treat_outliers df =
       map (\<lambda>r. r\<lparr>passenger_count :=
             map_option (\<lambda>x. clip_value 0 500
                (clip_value (lower_bound (map passenger_count df))
                   (upper_bound (map passenger_count df)) x)) (passenger_count r)\<rparr>) df
   \<and> (lower_bound (map passenger_count df) \<le> upper_bound (map passenger_count df) \<longrightarrow>
        (\<forall>i < length df. \<forall>x. passenger_count (df ! i) = Some x \<longrightarrow>
           passenger_count (treat_outliers df ! i) =
             Some (max (lower_bound (map passenger_count df))
                    (min (upper_bound (map passenger_count df)) x))))
   \<and> quantile [Some (- 50), Some 60, Some 70, Some 80, Some 600] (1 / 4) = Some 60
   \<and> quantile [Some (- 50), Some 60, Some 70, Some 80, Some 600] (3 / 4) = Some 80
   \<and> lower_bound [Some (- 50), Some 60, Some 70, Some 80, Some 600] = 30
   \<and> upper_bound [Some (- 50), Some 60, Some 70, Some 80, Some 600] = 110
   \<and> map passenger_count
        (treat_outliers (map (\<lambda>c. r\<lparr>passenger_count := Some c\<rparr>) [- 50, 60, 70, 80, 600]))
       = [Some 30, Some 60, Some 70, Some 80, Some 110]"
proof -
  let ?col = "map passenger_count df"
  let ?lb = "lower_bound ?col" and ?ub = "upper_bound ?col"
  have a: "length (treat_outliers df) = length df"
    by (simp add: treat_outliers_map)
  have b: "\<forall>q1 q3. quantile ?col (1 / 4) = Some q1 \<and> quantile ?col (3 / 4) = Some q3 \<longrightarrow>
          ?lb = max 0 (q1 - 1.5 * (q3 - q1)) \<and> ?ub = min 500 (q3 + 1.5 * (q3 - q1))"
    using bounds_some by blast
  have d: "?lb \<le> ?ub \<longrightarrow>
        (\<forall>i < length df. \<forall>x. passenger_count (df ! i) = Some x \<longrightarrow>
           passenger_count (treat_outliers df ! i) = Some (max ?lb (min ?ub x)))"
  proof (intro impI allI)
    fix i x
    assume le: "?lb \<le> ?ub" and i: "i < length df" and x: "passenger_count (df ! i) = Some x"
    have "0 \<le> max ?lb (min ?ub x)" "max ?lb (min ?ub x) \<le> 500"
      using lower_bound_nonneg [of ?col] upper_bound_le [of ?col] le by auto
    then have "clip_value 0 500 (max ?lb (min ?ub x)) = max ?lb (min ?ub x)"
      by (simp add: clip_value_id)
    with le i x show "passenger_count (treat_outliers df ! i) = Some (max ?lb (min ?ub x))"
      by (simp add: treat_outliers_map clip_value_ordered)
  qed
  let ?sc = "[Some (- 50), Some 60, Some 70, Some 80, Some 600] :: real option list"
  have lb: "lower_bound ?sc = 30"
    using bounds_some(1) [OF sc_q1 sc_q3] by simp
  have ub: "upper_bound ?sc = 110"
    using bounds_some(2) [OF sc_q1 sc_q3] by simp
  have col: "map passenger_count (map (\<lambda>c. r\<lparr>passenger_count := Some c\<rparr>) [- 50, 60, 70, 80, 600])
       = ?sc"
    by simp
  have e: "map passenger_count
        (treat_outliers (map (\<lambda>c. r\<lparr>passenger_count := Some c\<rparr>) [- 50, 60, 70, 80, 600]))
       = [Some 30, Some 60, Some 70, Some 80, Some 110]"
    unfolding treat_outliers_map col lb ub by (simp add: clip_value_def)
  show ?thesis
    by (intro conjI) (rule a b treat_outliers_map d sc_q1 sc_q3 lb ub e)+
qed

theorem treat_outliers_spec_witness:
  "lower_bound (map passenger_count
       [base_row\<lparr>passenger_count := Some 10\<rparr>, base_row\<lparr>passenger_count := Some 20\<rparr>,
        base_row\<lparr>passenger_count := None\<rparr>, base_row\<lparr>passenger_count := Some 30\<rparr>,
        base_row\<lparr>passenger_count := Some 40\<rparr>, base_row\<lparr>passenger_count := Some 400\<rparr>]) = 0
   \<and> upper_bound (map passenger_count
       [base_row\<lparr>passenger_count := Some 10\<rparr>, base_row\<lparr>passenger_count := Some 20\<rparr>,
        base_row\<lparr>passenger_count := None\<rparr>, base_row\<lparr>passenger_count := Some 30\<rparr>,
        base_row\<lparr>passenger_count := Some 40\<rparr>, base_row\<lparr>passenger_count := Some 400\<rparr>]) = 70
   \<and> passenger_count (treat_outliers
       [base_row\<lparr>passenger_count := Some 10\<rparr>, base_row\<lparr>passenger_count := Some 20\<rparr>,
        base_row\<lparr>passenger_count := None\<rparr>, base_row\<lparr>passenger_count := Some 30\<rparr>,
        base_row\<lparr>passenger_count := Some 40\<rparr>, base_row\<lparr>passenger_count := Some 400\<rparr>] ! 5)
       = Some 70"
proof -
  let ?df = "[base_row\<lparr>passenger_count := Some 10\<rparr>, base_row\<lparr>passenger_count := Some 20\<rparr>,
        base_row\<lparr>passenger_count := None\<rparr>, base_row\<lparr>passenger_count := Some 30\<rparr>,
        base_row\<lparr>passenger_count := Some 40\<rparr>, base_row\<lparr>passenger_count := Some 400\<rparr>]"
  have col: "map passenger_count ?df = [Some 10, Some 20, None, Some 30, Some 40, Some 400]"
    by simp
  have q1: "quantile (map passenger_count ?df) (1 / 4) = Some 20"
    unfolding col by (simp add: quantile_def present_def Let_def)
  have q3: "quantile (map passenger_count ?df) (3 / 4) = Some 40"
    unfolding col by (simp add: quantile_def present_def Let_def)
  note t = treat_outliers_spec [of ?df]
  from t q1 q3 have lb: "lower_bound (map passenger_count ?df) = 0"
    and ub: "upper_bound (map passenger_count ?df) = 70"
    by auto
  have i: "5 < length ?df" and x: "passenger_count (?df ! 5) = Some 400"
    by simp_all
  have le: "lower_bound (map passenger_count ?df) \<le> upper_bound (map passenger_count ?df)"
    unfolding lb ub by simp
  note t4 = t [THEN conjunct2, THEN conjunct2, THEN conjunct2, THEN conjunct1]
  have "passenger_count (treat_outliers ?df ! 5) =
      Some (max (lower_bound (map passenger_count ?df))
             (min (upper_bound (map passenger_count ?df)) 400))"
    by (rule t4 [THEN mp, OF le, rule_format, OF i x])
  then have "passenger_count (treat_outliers ?df ! 5) = Some 70"
    unfolding lb ub by simp
  with lb ub show ?thesis by (intro conjI)
qed

subsection \<open>Missing-value resolver\<close>

lemma ffill_length [simp]: "length (ffill prev vs) = length vs"
  by (induction vs arbitrary: prev) simp_all

lemma ffill_nth:
  "i < length vs \<Longrightarrow>
   ffill prev vs ! i =
     (case filter (\<lambda>v. v \<noteq> RNone) (take (Suc i) vs) of [] \<Rightarrow> prev | xs \<Rightarrow> last xs)"
proof (induction vs arbitrary: prev i)
  case Nil
  then show ?case by simp
next
  case (Cons v vs)
  show ?case
  proof (cases i)
    case 0
    then show ?thesis by simp
  next
    case (Suc j)
    with Cons.prems have j: "j < length vs" by simp
    show ?thesis
      using Cons.IH [OF j] Suc
      by (auto split: list.splits)
  qed
qed

lemma fill_route_id_nth:
  "i < length df \<Longrightarrow>
   fill_route_id df ! i = (df ! i)\<lparr>route_id := last_seen (take (Suc i) (map route_id df))\<rparr>"
  by (simp add: fill_route_id_def set_route_id_def ffill_nth last_seen_def)

lemma fill_route_id_length [simp]: "length (fill_route_id df) = length df"
  by (simp add: fill_route_id_def set_route_id_def)

lemma fill_route_id_weather [simp]: "map weather (fill_route_id df) = map weather df"
  by (rule nth_equalityI) (simp_all add: fill_route_id_nth)

lemma fill_route_id_passenger [simp]:
  "map passenger_count (fill_route_id df) = map passenger_count df"
  by (rule nth_equalityI) (simp_all add: fill_route_id_nth)

lemma fill_weather_map:
  "fill_weather df =
     map (\<lambda>r. r\<lparr>weather :=
        (case weather r of
           None \<Rightarrow> Some (if mode (map weather df) \<noteq> [] then hd (mode (map weather df))
                         else ''clear'')
         | Some w \<Rightarrow> Some w)\<rparr>) df"
proof -
  have "fillna (Some m) (map weather df) =
      map (\<lambda>r. case weather r of None \<Rightarrow> Some m | Some w \<Rightarrow> Some w) df" for m
    by (simp add: fillna_def split: option.splits)
  then show ?thesis
    by (simp add: fill_weather_def Let_def set_weather_def map2_same)
qed

lemma fill_passenger_count_map:
  "fill_passenger_count df =
     map (\<lambda>r. r\<lparr>passenger_count :=
        (case passenger_count r of
           None \<Rightarrow> median (map passenger_count df)
         | Some p \<Rightarrow> Some p)\<rparr>) df"
proof -
  have "fillna m (map passenger_count df) =
      map (\<lambda>r. case passenger_count r of None \<Rightarrow> m | Some p \<Rightarrow> Some p) df" for m
    by (simp add: fillna_def split: option.splits)
  then show ?thesis
    by (simp add: fill_passenger_count_def Let_def set_passenger_count_def map2_same)
qed

lemma drop_missing_gps_filter:
  "drop_missing_gps df = filter (\<lambda>r. \<not> gps_isnull r) df"
proof (cases "filter gps_isnull df = []")
  case True
  then have "filter (\<lambda>r. \<not> gps_isnull r) df = df"
    by (simp add: filter_empty_conv filter_id_conv)
  with True show ?thesis by (simp add: drop_missing_gps_def)
next
  case False
  then show ?thesis by (simp add: drop_missing_gps_def)
qed

lemma fills_eq:
  "fill_passenger_count (fill_weather (fill_route_id df)) =
     map (spec_repaired_row df) [0..<length df]"
proof (rule nth_equalityI)
  show "length (fill_passenger_count (fill_weather (fill_route_id df))) =
      length (map (spec_repaired_row df) [0..<length df])"
    by (simp add: fill_passenger_count_map fill_weather_map)
next
  fix i
  assume "i < length (fill_passenger_count (fill_weather (fill_route_id df)))"
  then have i: "i < length df"
    by (simp add: fill_passenger_count_map fill_weather_map)
  have w: "map weather (fill_route_id df) = map weather df" by simp
  have p: "map passenger_count (fill_weather (fill_route_id df)) = map passenger_count df"
    by (simp add: fill_weather_map comp_def)
  show "fill_passenger_count (fill_weather (fill_route_id df)) ! i =
      map (spec_repaired_row df) [0..<length df] ! i"
    unfolding fill_passenger_count_map p
    unfolding fill_weather_map w
    using i by (simp add: fill_route_id_nth spec_repaired_row_def)
qed

lemma handle_missing_values_eq:
  "handle_missing_values df =
     map (spec_repaired_row df) (filter (\<lambda>i. \<not> gps_isnull (df ! i)) [0..<length df])"
proof -
  have "gps_isnull (spec_repaired_row df i) = gps_isnull (df ! i)" for i
    by (simp add: spec_repaired_row_def gps_isnull_def)
  then show ?thesis
    by (simp add: handle_missing_values_def fills_eq drop_missing_gps_filter filter_map comp_def)
qed

lemma fold_max_ge: "(a::nat) \<le> fold max xs a"
  by (induction xs arbitrary: a) (auto intro: order_trans [OF max.cobounded2])

lemma fold_max_mem: "fold max xs (a::nat) = a \<or> fold max xs a \<in> set xs"
proof (induction xs arbitrary: a)
  case Nil
  show ?case by simp
next
  case (Cons x xs)
  from Cons [of "max x a"] show ?case by (auto simp: max_def split: if_splits)
qed

lemma set_mode:
  "set (mode col) =
     {v \<in> set (present col). count_list (present col) v =
        fold max (map (count_list (present col)) (present col)) 0}"
  by (simp add: mode_def Let_def)

lemma mode_empty: "(mode col = []) = (\<forall>v \<in> set col. v = None)"
proof -
  let ?vals = "present col"
  let ?best = "fold max (map (count_list ?vals) ?vals) 0"
  have pres: "(?vals = []) = (\<forall>v \<in> set col. v = None)"
    by (induction col) (auto simp: present_def split: option.splits)
  have "\<exists>v \<in> set ?vals. count_list ?vals v = ?best" if "?vals \<noteq> []"
  proof -
    from that obtain v where v: "v \<in> set ?vals" by (cases ?vals) auto
    then have "count_list ?vals v \<noteq> 0" by (simp add: count_list_0_iff)
    then have "0 < count_list ?vals v" by simp
    have "?best \<noteq> 0"
    proof
      assume z: "?best = 0"
      have "count_list ?vals v \<in> set (map (count_list ?vals) ?vals)" using v by simp
      moreover have "\<forall>x \<in> set xs. x \<le> fold max xs (a::nat)" for xs a
        by (induction xs arbitrary: a) (auto intro: order_trans [OF _ fold_max_ge])
      ultimately have "count_list ?vals v \<le> ?best" by blast
      with z \<open>0 < count_list ?vals v\<close> show False by simp
    qed
    with fold_max_mem [of "map (count_list ?vals) ?vals" 0] show ?thesis by auto
  qed
  then have "(set (mode col) = {}) = (?vals = [])"
    unfolding set_mode by auto
  then show ?thesis
    unfolding pres [symmetric] by simp
qed

lemma fold_max_upper: "\<forall>x \<in> set xs. x \<le> fold max xs (a::nat)"
  by (induction xs arbitrary: a) (auto intro: order_trans [OF _ fold_max_ge])

lemma mode_hd_most_frequent:
  assumes "mode col \<noteq> []"
  shows "hd (mode col) \<in> set (present col)"
    and "count_list (present col) w \<le> count_list (present col) (hd (mode col))"
proof -
  let ?vals = "present col"
  from assms have "hd (mode col) \<in> set (mode col)" by simp
  then have m: "hd (mode col) \<in> set ?vals"
    and c: "count_list ?vals (hd (mode col)) = fold max (map (count_list ?vals) ?vals) 0"
    unfolding set_mode by simp_all
  show "hd (mode col) \<in> set ?vals" by (rule m)
  show "count_list ?vals w \<le> count_list ?vals (hd (mode col))"
  proof (cases "w \<in> set ?vals")
    case True
    then have "count_list ?vals w \<in> set (map (count_list ?vals) ?vals)" by simp
    with fold_max_upper [of "map (count_list ?vals) ?vals" 0] c show ?thesis by auto
  next
    case False
    then show ?thesis by simp
  qed
qed

text \<open>
  Claim C8. The missing-value resolver applies each policy once, in the order route forward
  fill, weather mode fill (\<open>clear\<close> when no weather is present), passenger median fill, and
  drops the rows without latitude or longitude last. So every row that stays is repaired from
  the whole input table, the rows that are dropped included: its route is the last route at or
  before it in the input, its weather the most frequent weather of the input column, its
  passenger count the median of the input column.
\<close>

theorem handle_missing_values_spec:
  "handle_missing_values df =
     map (spec_repaired_row df) (filter (\<lambda>i. \<not> gps_isnull (df ! i)) [0..<length df])
   \<and> ((\<forall>r \<in> set df. weather r = None) \<longrightarrow>
        (\<forall>r \<in> set (handle_missing_values df). weather r = Some ''clear''))
   \<and> (mode (map weather df) \<noteq> [] \<longrightarrow>
        hd (mode (map weather df)) \<in> set (present (map weather df))
        \<and> (\<forall>w. count_list (present (map weather df)) w
               \<le> count_list (present (map weather df)) (hd (mode (map weather df)))))"
proof -
  have b: "(\<forall>r \<in> set df. weather r = None) \<longrightarrow>
        (\<forall>r \<in> set (handle_missing_values df). weather r = Some ''clear'')"
  proof (intro impI ballI)
    fix r
    assume none: "\<forall>r \<in> set df. weather r = None" and r: "r \<in> set (handle_missing_values df)"
    from none have m: "mode (map weather df) = []" by (simp add: mode_empty)
    from r obtain i where i: "i < length df" and "r = spec_repaired_row df i"
      unfolding handle_missing_values_eq by auto
    moreover from i none have "weather (df ! i) = None" by simp
    ultimately show "weather r = Some ''clear''"
      by (simp add: spec_repaired_row_def m)
  qed
  have c: "mode (map weather df) \<noteq> [] \<longrightarrow>
        hd (mode (map weather df)) \<in> set (present (map weather df))
        \<and> (\<forall>w. count_list (present (map weather df)) w
               \<le> count_list (present (map weather df)) (hd (mode (map weather df))))"
    using mode_hd_most_frequent [of "map weather df"] by blast
  show ?thesis
    by (intro conjI) (rule handle_missing_values_eq b c)+
qed

theorem handle_missing_values_spec_witness:
  "handle_missing_values
     [base_row\<lparr>route_id := RStr ''R5'', weather := Some ''rainy'',
               passenger_count := Some 100, latitude := None\<rparr>,
      base_row\<lparr>route_id := RNone, weather := None, passenger_count := None\<rparr>,
      base_row\<lparr>route_id := RInt 2, weather := Some ''rainy'', passenger_count := Some 30\<rparr>]
   = [base_row\<lparr>route_id := RStr ''R5'', weather := Some ''rainy'', passenger_count := Some 65\<rparr>,
      base_row\<lparr>route_id := RInt 2, weather := Some ''rainy'', passenger_count := Some 30\<rparr>]"
  using handle_missing_values_spec [THEN conjunct1, of
     "[base_row\<lparr>route_id := RStr ''R5'', weather := Some ''rainy'',
               passenger_count := Some 100, latitude := None\<rparr>,
      base_row\<lparr>route_id := RNone, weather := None, passenger_count := None\<rparr>,
      base_row\<lparr>route_id := RInt 2, weather := Some ''rainy'', passenger_count := Some 30\<rparr>]"]
  by (simp add: spec_repaired_row_def mode_def median_def present_def base_row_def
      gps_isnull_def last_seen_def)

subsection \<open>The orchestrator\<close>



lemma set_actual_time_map:
  "set_actual_time df (map h df) = map (\<lambda>r. r\<lparr>actual_time := h r\<rparr>) df"
  by (simp add: set_actual_time_def map2_same)








subsection \<open>Invariants of the cleaned table\<close>









subsection \<open>The cleaner on a cleaned table\<close>










subsection \<open>Running the cleaner twice\<close>




text \<open>
  The condition on the timestamps is needed: the text that the normalizer returns for a year
  below 1000 has a short year, and no attempt of a second run reads it.
\<close>

lemma parse_timestamp_short_year_again:
  "parse_timestamp canon_lib (Some ''999-12-31 23:59:59'') = Inr None"
  by code_simp

text \<open>
  Claim C1 at a table whose passenger counts are all absent. The median of the column is
  absent, the median fill changes nothing, both clips keep an absent cell, and the cleaned
  table has rows whose passenger count is not in 0..500.
\<close>

theorem clean_all_absent_passenger_count:
  "clean_all canon_lib
     [base_row\<lparr>passenger_count := None\<rparr>, base_row\<lparr>passenger_count := None, weather := Some ''Snow''\<rparr>]
   = Inr [base_row\<lparr>passenger_count := None\<rparr>,
          base_row\<lparr>passenger_count := None, weather := Some ''snowy''\<rparr>]"
  by code_simp

subsection \<open>Delay computation\<close>

lemma delay_loop_map:
  "delay_loop lib df = Inr out \<Longrightarrow> map Inr out = map (delay_row lib) df"
  by (induction df arbitrary: out) (auto simp: bind_exn_def split: sum.splits)

lemma delay_loop_total:
  "\<forall>r \<in> set df. \<exists>r'. delay_row lib r = Inr r' \<Longrightarrow> \<exists>out. delay_loop lib df = Inr out"
proof (induction df)
  case Nil
  show ?case by simp
next
  case (Cons a df)
  then obtain a' out where "delay_row lib a = Inr a'" "delay_loop lib df = Inr out"
    by auto
  then show ?case by (simp add: bind_exn_def)
qed

lemma delay_row_spec:
  assumes "delay_row lib (to_datetime_columns lib r) = Inr x"
  shows "x = (to_datetime_columns lib r)\<lparr>delay_minutes := delay_minutes x\<rparr>"
    and "map_option (\<lambda>x. if x < 0 then 0 else x) (delay_minutes x) = spec_delay lib r"
  using assms
  by (auto simp: delay_row_def delay_body_def bind_exn_def spec_delay_def to_datetime_columns_def
      Let_def abs_le_iff max_def
      split: option.splits sum.splits if_splits)

lemma delay_row_total:
  assumes "\<And>dt e. timestamp lib dt = Inl e \<Longrightarrow> caught e"
  shows "\<exists>r'. delay_row lib r = Inr r'"
  using assms
  by (auto simp: delay_row_def delay_body_def bind_exn_def Let_def
      split: option.splits sum.splits)

lemma delay_pipeline:
  "map Inr xs = map (delay_row lib) (map (to_datetime_columns lib) df) \<Longrightarrow>
   dropna_delay (clip_delay xs) =
     map (\<lambda>r. (to_datetime_columns lib r)\<lparr>delay_minutes := spec_delay lib r\<rparr>)
       (filter (\<lambda>r. spec_delay lib r \<noteq> None) df)"
proof (induction df arbitrary: xs)
  case Nil
  then show ?case by (simp add: dropna_delay_def clip_delay_def)
next
  case (Cons r df)
  from Cons.prems obtain x xs' where xs: "xs = x # xs'"
    and x: "delay_row lib (to_datetime_columns lib r) = Inr x"
    and rest: "map Inr xs' = map (delay_row lib) (map (to_datetime_columns lib) df)"
    by (cases xs) auto
  let ?f = "\<lambda>x::real. if x < 0 then 0 else x"
  from delay_row_spec [OF x]
  have shape: "x = (to_datetime_columns lib r)\<lparr>delay_minutes := delay_minutes x\<rparr>"
    and d: "map_option ?f (delay_minutes x) = spec_delay lib r"
    by simp_all
  have "x\<lparr>delay_minutes := map_option ?f (delay_minutes x)\<rparr> =
      (to_datetime_columns lib r)\<lparr>delay_minutes := spec_delay lib r\<rparr>"
    by (subst shape) (simp add: d)
  moreover from Cons.IH [OF rest] have "dropna_delay (clip_delay xs') =
     map (\<lambda>r. (to_datetime_columns lib r)\<lparr>delay_minutes := spec_delay lib r\<rparr>)
       (filter (\<lambda>r. spec_delay lib r \<noteq> None) df)" .
  ultimately show ?case
    unfolding xs by (simp add: dropna_delay_def clip_delay_def d)
qed

lemma compute_delay_duration_eq:
  assumes "compute_delay_duration lib df = Inr out"
  shows "out = map (\<lambda>r. (to_datetime_columns lib r)\<lparr>delay_minutes := spec_delay lib r\<rparr>)
       (filter (\<lambda>r. spec_delay lib r \<noteq> None) df)"
proof -
  from assms obtain xs where xs: "delay_loop lib (map (to_datetime_columns lib) df) = Inr xs"
    and out: "out = dropna_delay (clip_delay xs)"
    by (auto simp: compute_delay_duration_def bind_exn_def split: sum.splits)
  from delay_loop_map [OF xs] show ?thesis
    unfolding out by (rule delay_pipeline)
qed

lemma spec_delay_nonneg: "spec_delay lib r = Some d \<Longrightarrow> 0 \<le> d"
  by (auto simp: spec_delay_def split: option.splits sum.splits if_splits)

lemma compute_delay_duration_total:
  assumes "\<And>dt e. timestamp lib dt = Inl e \<Longrightarrow> caught e"
  shows "\<exists>out. compute_delay_duration lib df = Inr out"
proof -
  have "\<exists>r'. delay_row lib r = Inr r'" for r :: "'a frow"
    by (rule delay_row_total) (rule assms)
  then have "\<forall>r \<in> set (map (to_datetime_columns lib) df). \<exists>r'. delay_row lib r = Inr r'"
    by blast
  then obtain xs where "delay_loop lib (map (to_datetime_columns lib) df) = Inr xs"
    using delay_loop_total by blast
  then show ?thesis
    by (simp add: compute_delay_duration_def bind_exn_def)
qed

text \<open>
  Claim C2. When the delay computation returns, its table holds exactly the rows whose two
  times parse and whose difference lies within 525600 minutes either way, in their order, and
  each of them has a delay of at least 0: the difference of the two instants in minutes, or 0
  when the actual time is earlier than the scheduled one. A row with a time that does not
  parse, or with a difference beyond 525600 minutes, is dropped. The computation returns
  whenever \<^verbatim>\<open>timestamp()\<close> raises nothing but the exceptions the loop catches. Scheduled
  2024-01-01 06:00:00 with actual 06:15:00 gives 15, with actual 05:50:00 gives 0.
\<close>

theorem compute_delay_duration_spec:
  "(\<forall>out. compute_delay_duration lib df = Inr out \<longrightarrow>
      out = map (\<lambda>r. (to_datetime_columns lib r)\<lparr>delay_minutes := spec_delay lib r\<rparr>)
              (filter (\<lambda>r. spec_delay lib r \<noteq> None) df)
      \<and> (\<forall>r \<in> set out. \<exists>d. delay_minutes r = Some d \<and> 0 \<le> d))
   \<and> ((\<forall>dt e. timestamp lib dt = Inl e \<longrightarrow> caught e) \<longrightarrow>
        (\<exists>out. compute_delay_duration lib df = Inr out))
   \<and> (coerce_datetime lib (scheduled_time r) = None \<or> coerce_datetime lib (actual_time r) = None
        \<longrightarrow> spec_delay lib r = None)
   \<and> (\<forall>sched actual sched_ts actual_ts.
        coerce_datetime lib (scheduled_time r) = Some sched
        \<and> coerce_datetime lib (actual_time r) = Some actual
        \<and> timestamp lib sched = Inr sched_ts \<and> timestamp lib actual = Inr actual_ts \<longrightarrow>
          (\<bar>(actual_ts - sched_ts) / 60\<bar> > 525600 \<longrightarrow> spec_delay lib r = None)
          \<and> (\<bar>(actual_ts - sched_ts) / 60\<bar> \<le> 525600 \<longrightarrow>
               spec_delay lib r = Some (max 0 ((actual_ts - sched_ts) / 60)))
          \<and> (\<bar>(actual_ts - sched_ts) / 60\<bar> \<le> 525600 \<and> actual_ts < sched_ts \<longrightarrow>
               spec_delay lib r = Some 0))
   \<and> map delay_minutes (projr (compute_delay_duration canon_lib
         [base_row\<lparr>scheduled_time := Some ''2024-01-01 06:00:00'',
                   actual_time := Some ''2024-01-01 06:15:00''\<rparr>,
          base_row\<lparr>scheduled_time := Some ''2024-01-01 06:00:00'',
                   actual_time := Some ''2024-01-01 05:50:00''\<rparr>]))
       = [Some 15, Some 0]"
proof -
  have a: "\<forall>out. compute_delay_duration lib df = Inr out \<longrightarrow>
      out = map (\<lambda>r. (to_datetime_columns lib r)\<lparr>delay_minutes := spec_delay lib r\<rparr>)
              (filter (\<lambda>r. spec_delay lib r \<noteq> None) df)
      \<and> (\<forall>r \<in> set out. \<exists>d. delay_minutes r = Some d \<and> 0 \<le> d)"
  proof (intro allI impI)
    fix out
    assume "compute_delay_duration lib df = Inr out"
    then have eq: "out = map (\<lambda>r. (to_datetime_columns lib r)\<lparr>delay_minutes := spec_delay lib r\<rparr>)
              (filter (\<lambda>r. spec_delay lib r \<noteq> None) df)"
      by (rule compute_delay_duration_eq)
    have "\<forall>r \<in> set out. \<exists>d. delay_minutes r = Some d \<and> 0 \<le> d"
      unfolding eq using spec_delay_nonneg by fastforce
    with eq show "out = map (\<lambda>r. (to_datetime_columns lib r)\<lparr>delay_minutes := spec_delay lib r\<rparr>)
              (filter (\<lambda>r. spec_delay lib r \<noteq> None) df)
      \<and> (\<forall>r \<in> set out. \<exists>d. delay_minutes r = Some d \<and> 0 \<le> d)"
      by (intro conjI)
  qed
  have b: "(\<forall>dt e. timestamp lib dt = Inl e \<longrightarrow> caught e) \<longrightarrow>
        (\<exists>out. compute_delay_duration lib df = Inr out)"
    using compute_delay_duration_total [of lib df] by blast
  have c: "coerce_datetime lib (scheduled_time r) = None \<or> coerce_datetime lib (actual_time r) = None
        \<longrightarrow> spec_delay lib r = None"
    by (auto simp: spec_delay_def split: option.splits)
  have d: "\<forall>sched actual sched_ts actual_ts.
        coerce_datetime lib (scheduled_time r) = Some sched
        \<and> coerce_datetime lib (actual_time r) = Some actual
        \<and> timestamp lib sched = Inr sched_ts \<and> timestamp lib actual = Inr actual_ts \<longrightarrow>
          (\<bar>(actual_ts - sched_ts) / 60\<bar> > 525600 \<longrightarrow> spec_delay lib r = None)
          \<and> (\<bar>(actual_ts - sched_ts) / 60\<bar> \<le> 525600 \<longrightarrow>
               spec_delay lib r = Some (max 0 ((actual_ts - sched_ts) / 60)))
          \<and> (\<bar>(actual_ts - sched_ts) / 60\<bar> \<le> 525600 \<and> actual_ts < sched_ts \<longrightarrow>
               spec_delay lib r = Some 0)"
    by (auto simp: spec_delay_def max_def)
  have e: "map delay_minutes (projr (compute_delay_duration canon_lib
         [base_row\<lparr>scheduled_time := Some ''2024-01-01 06:00:00'',
                   actual_time := Some ''2024-01-01 06:15:00''\<rparr>,
          base_row\<lparr>scheduled_time := Some ''2024-01-01 06:00:00'',
                   actual_time := Some ''2024-01-01 05:50:00''\<rparr>]))
       = [Some 15, Some 0]"
    by code_simp
  show ?thesis
    by (intro conjI) (rule a b c d e)+
qed

theorem compute_delay_duration_spec_witness:
  "spec_delay canon_lib (base_row\<lparr>scheduled_time := Some ''2024-01-01 06:00:00'',
                                  actual_time := Some ''not a time''\<rparr>) = None
   \<and> spec_delay canon_lib (base_row\<lparr>scheduled_time := Some ''2024-01-01 06:00:00'',
                                    actual_time := Some ''2025-06-01 06:00:00''\<rparr>) = None
   \<and> spec_delay canon_lib (base_row\<lparr>scheduled_time := Some ''2024-01-01 06:00:00'',
                                    actual_time := Some ''2024-01-01 06:15:00''\<rparr>) = Some 15
   \<and> map delay_minutes (projr (compute_delay_duration canon_lib
         [base_row\<lparr>scheduled_time := Some ''2024-01-01 06:00:00'',
                   actual_time := Some ''not a time''\<rparr>,
          base_row\<lparr>scheduled_time := Some ''2024-01-01 06:00:00'',
                   actual_time := Some ''2025-06-01 06:00:00''\<rparr>,
          base_row\<lparr>scheduled_time := Some ''2024-01-01 06:00:00'',
                   actual_time := Some ''2024-01-01 06:15:00''\<rparr>]))
       = [Some 15]"
proof -
  let ?bad = "base_row\<lparr>scheduled_time := Some ''2024-01-01 06:00:00'',
                      actual_time := Some ''not a time''\<rparr>"
  let ?far = "base_row\<lparr>scheduled_time := Some ''2024-01-01 06:00:00'',
                      actual_time := Some ''2025-06-01 06:00:00''\<rparr>"
  let ?ok = "base_row\<lparr>scheduled_time := Some ''2024-01-01 06:00:00'',
                     actual_time := Some ''2024-01-01 06:15:00''\<rparr>"
  let ?s = "\<lparr>year = 2024, month = 1, day = 1, hh = 6, mi = 0, ss = 0\<rparr>"
  have "coerce_datetime canon_lib (actual_time ?bad) = None"
    by code_simp
  with compute_delay_duration_spec [of canon_lib "[]" ?bad]
  have 1: "spec_delay canon_lib ?bad = None"
    by blast
  have far: "coerce_datetime canon_lib (scheduled_time ?far) = Some ?s
      \<and> coerce_datetime canon_lib (actual_time ?far)
         = Some \<lparr>year = 2025, month = 6, day = 1, hh = 6, mi = 0, ss = 0\<rparr>
      \<and> timestamp canon_lib ?s = Inr 1704088800
      \<and> timestamp canon_lib \<lparr>year = 2025, month = 6, day = 1, hh = 6, mi = 0, ss = 0\<rparr>
         = Inr 1748757600"
    by code_simp
  have "\<bar>(1748757600 - 1704088800) / 60 :: real\<bar> > 525600"
    by simp
  with compute_delay_duration_spec [of canon_lib "[]" ?far] far
  have 2: "spec_delay canon_lib ?far = None"
    by blast
  have ok: "coerce_datetime canon_lib (scheduled_time ?ok) = Some ?s
      \<and> coerce_datetime canon_lib (actual_time ?ok)
         = Some \<lparr>year = 2024, month = 1, day = 1, hh = 6, mi = 15, ss = 0\<rparr>
      \<and> timestamp canon_lib ?s = Inr 1704088800
      \<and> timestamp canon_lib \<lparr>year = 2024, month = 1, day = 1, hh = 6, mi = 15, ss = 0\<rparr>
         = Inr 1704089700"
    by code_simp
  have "\<bar>(1704089700 - 1704088800) / 60 :: real\<bar> \<le> 525600"
    and m: "max 0 ((1704089700 - 1704088800) / 60 :: real) = 15"
    by simp_all
  with compute_delay_duration_spec [of canon_lib "[]" ?ok] ok
  have "spec_delay canon_lib ?ok = Some (max 0 ((1704089700 - 1704088800) / 60))"
    by blast
  then have 3: "spec_delay canon_lib ?ok = Some 15"
    by (simp only: m)
  have 4: "map delay_minutes (projr (compute_delay_duration canon_lib [?bad, ?far, ?ok]))
       = [Some 15]"
    by code_simp
  from 1 2 3 4 show ?thesis by (intro conjI)
qed

end
